theory Spec2Isabelle
  imports Complex_Main
begin

section \<open>JavaScript numbers and template strings\<close>

text \<open>
  The hook \<^verbatim>\<open>useMicroInteractions\<close> computes with JavaScript numbers. A number is
  modelled as a finite real or one of the three special values of IEEE 754. Finite
  arithmetic is exact here (no rounding, no overflow to infinity) and the two zeros are
  not told apart: a zero divisor is the positive zero, which is what the divisors of the
  source are (a square root, a width or a height halved). The special cases are the
  ones of the language: \<^verbatim>\<open>0 / 0\<close> is \<^verbatim>\<open>NaN\<close>, a non-zero number over zero
  is an infinity, every comparison with \<^verbatim>\<open>NaN\<close> is false.
\<close>

datatype jsnum = Fin real | PInf | NInf | NaN

fun js_neg :: "jsnum \<Rightarrow> jsnum" where
  "js_neg (Fin a) = Fin (- a)"
| "js_neg PInf = NInf"
| "js_neg NInf = PInf"
| "js_neg NaN = NaN"

fun js_add :: "jsnum \<Rightarrow> jsnum \<Rightarrow> jsnum" where
  "js_add (Fin a) (Fin b) = Fin (a + b)"
| "js_add NaN _ = NaN"
| "js_add _ NaN = NaN"
| "js_add PInf NInf = NaN"
| "js_add NInf PInf = NaN"
| "js_add PInf _ = PInf"
| "js_add _ PInf = PInf"
| "js_add NInf _ = NInf"
| "js_add _ NInf = NInf"

definition js_sub :: "jsnum \<Rightarrow> jsnum \<Rightarrow> jsnum" where
  "js_sub a b = js_add a (js_neg b)"

text \<open>An infinity of the given sign (\<open>True\<close> is positive).\<close>

definition inf_of :: "bool \<Rightarrow> jsnum" where
  "inf_of pos = (if pos then PInf else NInf)"

fun js_mul :: "jsnum \<Rightarrow> jsnum \<Rightarrow> jsnum" where
  "js_mul (Fin a) (Fin b) = Fin (a * b)"
| "js_mul NaN _ = NaN"
| "js_mul _ NaN = NaN"
| "js_mul (Fin a) PInf = (if a = 0 then NaN else inf_of (0 < a))"
| "js_mul (Fin a) NInf = (if a = 0 then NaN else inf_of (a < 0))"
| "js_mul PInf (Fin b) = (if b = 0 then NaN else inf_of (0 < b))"
| "js_mul NInf (Fin b) = (if b = 0 then NaN else inf_of (b < 0))"
| "js_mul PInf PInf = PInf"
| "js_mul PInf NInf = NInf"
| "js_mul NInf PInf = NInf"
| "js_mul NInf NInf = PInf"

fun js_div :: "jsnum \<Rightarrow> jsnum \<Rightarrow> jsnum" where
  "js_div (Fin a) (Fin b) =
     (if b \<noteq> 0 then Fin (a / b) else if a = 0 then NaN else inf_of (0 < a))"
| "js_div NaN _ = NaN"
| "js_div _ NaN = NaN"
| "js_div (Fin a) PInf = Fin 0"
| "js_div (Fin a) NInf = Fin 0"
| "js_div PInf (Fin b) = inf_of (0 \<le> b)"
| "js_div NInf (Fin b) = inf_of (b < 0)"
| "js_div PInf PInf = NaN"
| "js_div PInf NInf = NaN"
| "js_div NInf PInf = NaN"
| "js_div NInf NInf = NaN"

fun js_lt :: "jsnum \<Rightarrow> jsnum \<Rightarrow> bool" where
  "js_lt (Fin a) (Fin b) = (a < b)"
| "js_lt NaN _ = False"
| "js_lt _ NaN = False"
| "js_lt NInf NInf = False"
| "js_lt NInf _ = True"
| "js_lt _ NInf = False"
| "js_lt PInf _ = False"
| "js_lt _ PInf = True"

fun js_ge :: "jsnum \<Rightarrow> jsnum \<Rightarrow> bool" where
  "js_ge NaN _ = False"
| "js_ge _ NaN = False"
| "js_ge a b = (\<not> js_lt a b)"

text \<open>\<^verbatim>\<open>Math.sqrt\<close> and \<^verbatim>\<open>Math.max\<close> (of two arguments).\<close>

fun js_sqrt :: "jsnum \<Rightarrow> jsnum" where
  "js_sqrt (Fin a) = (if a < 0 then NaN else Fin (sqrt a))"
| "js_sqrt PInf = PInf"
| "js_sqrt NInf = NaN"
| "js_sqrt NaN = NaN"

fun js_max :: "jsnum \<Rightarrow> jsnum \<Rightarrow> jsnum" where
  "js_max NaN _ = NaN"
| "js_max _ NaN = NaN"
| "js_max a b = (if js_lt a b then b else a)"

text \<open>Truthiness: \<^verbatim>\<open>0\<close> and \<^verbatim>\<open>NaN\<close> are falsy, the empty string is falsy.\<close>

fun truthy :: "jsnum \<Rightarrow> bool" where
  "truthy (Fin a) = (a \<noteq> 0)"
| "truthy NaN = False"
| "truthy _ = True"

definition truthy_str :: "string \<Rightarrow> bool" where
  "truthy_str s = (s \<noteq> [])"

text \<open>
  \<^verbatim>\<open>x || d\<close> where \<open>x\<close> may be \<^verbatim>\<open>undefined\<close> (\<open>None\<close>): the left operand if
  it is truthy, the right one otherwise.
\<close>

definition js_or_num :: "jsnum option \<Rightarrow> jsnum \<Rightarrow> jsnum" where
  "js_or_num x d = (case x of None \<Rightarrow> d | Some v \<Rightarrow> if truthy v then v else d)"

definition js_or_str :: "string option \<Rightarrow> string \<Rightarrow> string" where
  "js_or_str x d = (case x of None \<Rightarrow> d | Some v \<Rightarrow> if truthy_str v then v else d)"

text \<open>
  A destructuring default takes the caller's value when the property is there with a
  value (\<open>Some\<close>) and the default when it is absent or \<^verbatim>\<open>undefined\<close> (\<open>None\<close>).
\<close>

definition dflt :: "'a \<Rightarrow> 'a option \<Rightarrow> 'a" where
  "dflt d x = (case x of None \<Rightarrow> d | Some v \<Rightarrow> v)"

text \<open>
  A property of an object literal that the caller passes: absent, present with the
  value \<^verbatim>\<open>undefined\<close> (which an optional property's type allows), or present with a
  value. An object spread copies every own property, also one whose value is
  \<^verbatim>\<open>undefined\<close>, so spreading the caller's object over a default leaves the default
  only where the property is absent. What is read back is a value or \<^verbatim>\<open>undefined\<close>
  (\<open>None\<close>).
\<close>

datatype 'a property = Absent | Undef | Given 'a

definition spread :: "'a \<Rightarrow> 'a property \<Rightarrow> 'a option" where
  "spread d p = (case p of Absent \<Rightarrow> Some d | Undef \<Rightarrow> None | Given v \<Rightarrow> Some v)"

text \<open>A value or \<^verbatim>\<open>undefined\<close> written back as a property that is present.\<close>

definition present :: "'a option \<Rightarrow> 'a property" where
  "present x = (case x of None \<Rightarrow> Undef | Some v \<Rightarrow> Given v)"

text \<open>
  The conversions the language applies to a value that may be \<^verbatim>\<open>undefined\<close>: to a
  number in arithmetic and comparisons (\<^verbatim>\<open>undefined\<close> becomes \<^verbatim>\<open>NaN\<close>), to a boolean
  in a condition (\<^verbatim>\<open>undefined\<close> is falsy), to a property key (the text
  \<^verbatim>\<open>undefined\<close>).
\<close>

definition to_number :: "jsnum option \<Rightarrow> jsnum" where
  "to_number x = (case x of None \<Rightarrow> NaN | Some v \<Rightarrow> v)"

definition truthy_num :: "jsnum option \<Rightarrow> bool" where
  "truthy_num x = (case x of None \<Rightarrow> False | Some v \<Rightarrow> truthy v)"

definition truthy_text :: "string option \<Rightarrow> bool" where
  "truthy_text x = (case x of None \<Rightarrow> False | Some v \<Rightarrow> truthy_str v)"

definition truthy_bool :: "bool option \<Rightarrow> bool" where
  "truthy_bool x = (case x of None \<Rightarrow> False | Some v \<Rightarrow> v)"

definition property_key :: "string option \<Rightarrow> string" where
  "property_key x = (case x of None \<Rightarrow> ''undefined'' | Some v \<Rightarrow> v)"

text \<open>
  A template literal is kept as the list of its chunks: the literal text and the
  interpolated numbers, in order. Two templates with the same chunks are the same
  string; the conversion of a number to its decimal text is not modelled. A plain
  string is one literal chunk, and the empty string assigned to a style property is the
  empty list. An interpolated \<^verbatim>\<open>undefined\<close> is the literal text \<^verbatim>\<open>undefined\<close>.
\<close>

datatype chunk = Lit string | Val jsnum

type_synonym css = "chunk list"

definition interp_num :: "jsnum option \<Rightarrow> chunk" where
  "interp_num x = (case x of None \<Rightarrow> Lit ''undefined'' | Some v \<Rightarrow> Val v)"

definition interp_str :: "string option \<Rightarrow> chunk" where
  "interp_str x = (case x of None \<Rightarrow> Lit ''undefined'' | Some v \<Rightarrow> Lit v)"

section \<open>Options and parameter resolution\<close>

text \<open>
  \<^verbatim>\<open>MicroInteractionOptions\<close>: every property is optional. At the top level, where
  the hook destructures with defaults, \<open>None\<close> is a property that is absent or
  \<^verbatim>\<open>undefined\<close>. Inside the seven sub-configurations, which the hook spreads over its
  defaults, the three cases of a property are kept apart. The performance mode and the
  names of the feedback mode and of the loading animation are kept as strings, so that
  the default branches of the code can be reached. The \<^verbatim>\<open>disabled\<close> family is
  declared by the interface and never read by the hook (its defaults are commented
  out), so it is left out.
\<close>

record hover_cfg =
  hc_scale :: "jsnum property"
  hc_rotate :: "jsnum property"
  hc_translateY :: "jsnum property"
  hc_brightness :: "jsnum property"
  hc_saturate :: "jsnum property"
  hc_blur :: "jsnum property"
  hc_duration :: "jsnum property"
  hc_easing :: "string property"

record focus_cfg =
  fc_scale :: "jsnum property"
  fc_glow :: "bool property"
  fc_glowColor :: "string property"
  fc_borderScale :: "jsnum property"
  fc_duration :: "jsnum property"

record active_cfg =
  ac_scale :: "jsnum property"
  ac_rotate :: "jsnum property"
  ac_duration :: "jsnum property"
  ac_feedback :: "string property"

record loading_cfg =
  lc_animation :: "string property"
  lc_duration :: "jsnum property"

record magnetic_cfg =
  mc_strength :: "jsnum property"
  mc_distance :: "jsnum property"

record ripple_cfg =
  rc_color :: "string property"
  rc_duration :: "jsnum property"
  rc_scale :: "jsnum property"

record tilt_cfg =
  tc_maxTilt :: "jsnum property"
  tc_scale :: "jsnum property"
  tc_speed :: "jsnum property"

record options =
  o_gpu :: "bool option"
  o_performance :: "string option"
  o_prefersReducedMotion :: "bool option"
  o_hover :: "hover_cfg option"
  o_focus :: "focus_cfg option"
  o_active :: "active_cfg option"
  o_loading :: "loading_cfg option"
  o_magnetic :: "magnetic_cfg option"
  o_ripple :: "ripple_cfg option"
  o_tilt :: "tilt_cfg option"

text \<open>The empty objects \<^verbatim>\<open>{}\<close> that the destructuring of \<^verbatim>\<open>options\<close> defaults to.\<close>

definition empty_hover :: hover_cfg where
  "empty_hover = \<lparr>hc_scale = Absent, hc_rotate = Absent, hc_translateY = Absent,
     hc_brightness = Absent, hc_saturate = Absent, hc_blur = Absent, hc_duration = Absent,
     hc_easing = Absent\<rparr>"

definition empty_focus :: focus_cfg where
  "empty_focus = \<lparr>fc_scale = Absent, fc_glow = Absent, fc_glowColor = Absent,
     fc_borderScale = Absent, fc_duration = Absent\<rparr>"

definition empty_active :: active_cfg where
  "empty_active = \<lparr>ac_scale = Absent, ac_rotate = Absent, ac_duration = Absent,
     ac_feedback = Absent\<rparr>"

definition empty_loading :: loading_cfg where
  "empty_loading = \<lparr>lc_animation = Absent, lc_duration = Absent\<rparr>"

definition empty_magnetic :: magnetic_cfg where
  "empty_magnetic = \<lparr>mc_strength = Absent, mc_distance = Absent\<rparr>"

definition empty_ripple :: ripple_cfg where
  "empty_ripple = \<lparr>rc_color = Absent, rc_duration = Absent, rc_scale = Absent\<rparr>"

definition empty_tilt :: tilt_cfg where
  "empty_tilt = \<lparr>tc_maxTilt = Absent, tc_scale = Absent, tc_speed = Absent\<rparr>"

definition empty_options :: options where
  "empty_options = \<lparr>o_gpu = None, o_performance = None, o_prefersReducedMotion = None,
     o_hover = None, o_focus = None, o_active = None, o_loading = None,
     o_magnetic = None, o_ripple = None, o_tilt = None\<rparr>"

text \<open>
  The resolved parameter sets: every property is present; its value is \<^verbatim>\<open>undefined\<close>
  (\<open>None\<close>) where the caller passed \<^verbatim>\<open>undefined\<close>.
\<close>

record hover_params =
  h_scale :: "jsnum option"
  h_rotate :: "jsnum option"
  h_translateY :: "jsnum option"
  h_brightness :: "jsnum option"
  h_saturate :: "jsnum option"
  h_blur :: "jsnum option"
  h_duration :: "jsnum option"
  h_easing :: "string option"

record focus_params =
  f_scale :: "jsnum option"
  f_glow :: "bool option"
  f_glowColor :: "string option"
  f_borderScale :: "jsnum option"
  f_duration :: "jsnum option"

record active_params =
  a_scale :: "jsnum option"
  a_rotate :: "jsnum option"
  a_duration :: "jsnum option"
  a_feedback :: "string option"

record loading_params =
  l_animation :: "string option"
  l_duration :: "jsnum option"

record magnetic_params =
  m_strength :: "jsnum option"
  m_distance :: "jsnum option"

record ripple_params =
  r_color :: "string option"
  r_duration :: "jsnum option"
  r_scale :: "jsnum option"

record tilt_params =
  t_maxTilt :: "jsnum option"
  t_scale :: "jsnum option"
  t_speed :: "jsnum option"

text \<open>
  \<^verbatim>\<open>const hoverDefaults = { scale: 1.02, ..., ...hover }\<close> and its six siblings: the
  literal's properties first, the caller's object spread over them.
\<close>

definition hoverDefaults :: "hover_cfg \<Rightarrow> hover_params" where
  "hoverDefaults c = \<lparr>
     h_scale = spread (Fin 1.02) (hc_scale c),
     h_rotate = spread (Fin 0) (hc_rotate c),
     h_translateY = spread (Fin (- 2)) (hc_translateY c),
     h_brightness = spread (Fin 1.1) (hc_brightness c),
     h_saturate = spread (Fin 1.1) (hc_saturate c),
     h_blur = spread (Fin 0) (hc_blur c),
     h_duration = spread (Fin 200) (hc_duration c),
     h_easing = spread ''cubic-bezier(0.4, 0, 0.2, 1)'' (hc_easing c)\<rparr>"

definition focusDefaults :: "focus_cfg \<Rightarrow> focus_params" where
  "focusDefaults c = \<lparr>
     f_scale = spread (Fin 1.02) (fc_scale c),
     f_glow = spread True (fc_glow c),
     f_glowColor = spread ''#3B82F6'' (fc_glowColor c),
     f_borderScale = spread (Fin 1.1) (fc_borderScale c),
     f_duration = spread (Fin 200) (fc_duration c)\<rparr>"

definition activeDefaults :: "active_cfg \<Rightarrow> active_params" where
  "activeDefaults c = \<lparr>
     a_scale = spread (Fin 0.95) (ac_scale c),
     a_rotate = spread (Fin 0) (ac_rotate c),
     a_duration = spread (Fin 100) (ac_duration c),
     a_feedback = spread ''visual'' (ac_feedback c)\<rparr>"

definition loadingDefaults :: "loading_cfg \<Rightarrow> loading_params" where
  "loadingDefaults c = \<lparr>
     l_animation = spread ''spin'' (lc_animation c),
     l_duration = spread (Fin 1000) (lc_duration c)\<rparr>"

definition magneticDefaults :: "magnetic_cfg \<Rightarrow> magnetic_params" where
  "magneticDefaults c = \<lparr>
     m_strength = spread (Fin 0.5) (mc_strength c),
     m_distance = spread (Fin 100) (mc_distance c)\<rparr>"

definition rippleDefaults :: "ripple_cfg \<Rightarrow> ripple_params" where
  "rippleDefaults c = \<lparr>
     r_color = spread ''rgba(255, 255, 255, 0.6)'' (rc_color c),
     r_duration = spread (Fin 600) (rc_duration c),
     r_scale = spread (Fin 2) (rc_scale c)\<rparr>"

definition tiltDefaults :: "tilt_cfg \<Rightarrow> tilt_params" where
  "tiltDefaults c = \<lparr>
     t_maxTilt = spread (Fin 10) (tc_maxTilt c),
     t_scale = spread (Fin 1.02) (tc_scale c),
     t_speed = spread (Fin 400) (tc_speed c)\<rparr>"

text \<open>
  Everything one render of the hook resolves from its \<^verbatim>\<open>options\<close> argument: the
  three top-level settings and the seven parameter sets.
\<close>

record resolved =
  gpu :: bool
  performance :: string
  prefersReducedMotion :: bool
  hoverP :: hover_params
  focusP :: focus_params
  activeP :: active_params
  loadingP :: loading_params
  magneticP :: magnetic_params
  rippleP :: ripple_params
  tiltP :: tilt_params

definition resolve :: "options \<Rightarrow> resolved" where
  "resolve opts = \<lparr>
     gpu = dflt True (o_gpu opts),
     performance = dflt ''auto'' (o_performance opts),
     prefersReducedMotion = dflt False (o_prefersReducedMotion opts),
     hoverP = hoverDefaults (dflt empty_hover (o_hover opts)),
     focusP = focusDefaults (dflt empty_focus (o_focus opts)),
     activeP = activeDefaults (dflt empty_active (o_active opts)),
     loadingP = loadingDefaults (dflt empty_loading (o_loading opts)),
     magneticP = magneticDefaults (dflt empty_magnetic (o_magnetic opts)),
     rippleP = rippleDefaults (dflt empty_ripple (o_ripple opts)),
     tiltP = tiltDefaults (dflt empty_tilt (o_tilt opts))\<rparr>"









section \<open>The environment: capability snapshot and motion preference\<close>

text \<open>
  What the hook reads from the browser: \<^verbatim>\<open>navigator.deviceMemory\<close>,
  \<^verbatim>\<open>navigator.hardwareConcurrency\<close>, \<^verbatim>\<open>navigator.connection?.effectiveType\<close>
  (each may be \<^verbatim>\<open>undefined\<close>), the result of the media query
  \<^verbatim>\<open>(prefers-reduced-motion: reduce)\<close>, and whether \<^verbatim>\<open>'vibrate' in navigator\<close>.
  Both memoised values below depend on a top-level option only, so with the environment
  fixed for the life of the component the memo is the function itself.
\<close>

record env =
  deviceMemory :: "jsnum option"
  hardwareConcurrency :: "jsnum option"
  effectiveType :: "string option"
  matchesReduce :: bool
  canVibrate :: bool

definition effectivePerformance :: "string \<Rightarrow> env \<Rightarrow> string" where
  "effectivePerformance perf e =
     (if perf \<noteq> ''auto'' then perf
      else
        let dm = js_or_num (deviceMemory e) (Fin 4);
            hw = js_or_num (hardwareConcurrency e) (Fin 4);
            ct = js_or_str (effectiveType e) ''4g''
        in if js_lt dm (Fin 2) \<or> js_lt hw (Fin 2) \<or> ct = ''slow-2g'' then ''economy''
           else if js_ge dm (Fin 8) \<and> js_ge hw (Fin 8) \<and> ct = ''4g'' then ''high''
           else ''balanced'')"

definition shouldReduceMotion :: "bool \<Rightarrow> env \<Rightarrow> bool" where
  "shouldReduceMotion prm e = (prm \<or> matchesReduce e)"

section \<open>The surface element and the state of one mounted hook\<close>

text \<open>
  The inline style properties the hook assigns, as last written. The browser's parsing
  of a written value (it drops a declaration it cannot parse) is not modelled: a
  property holds what the code assigned.
\<close>

record style =
  st_transform :: css
  st_filter :: css
  st_transition :: css
  st_boxShadow :: css
  st_willChange :: css
  st_backfaceVisibility :: css
  st_perspective :: css
  st_transformStyle :: css

text \<open>\<^verbatim>\<open>getBoundingClientRect()\<close> and the coordinates of a mouse event.\<close>

record rect =
  rect_left :: jsnum
  rect_top :: jsnum
  rect_width :: jsnum
  rect_height :: jsnum

record mouse =
  clientX :: jsnum
  clientY :: jsnum

text \<open>
  The keyframes table of the loading effect. \<^verbatim>\<open>keyframes[animation]\<close> is a property
  read on an object literal: one of the four own properties, a member inherited from
  \<^verbatim>\<open>Object.prototype\<close>, or \<^verbatim>\<open>undefined\<close>.
\<close>

record keyframe =
  kf_transform :: "string option"
  kf_opacity :: "jsnum option"

datatype kf_lookup = Keyframes "keyframe list" | Inherited | Undefined

definition kf :: "string option \<Rightarrow> jsnum option \<Rightarrow> keyframe" where
  "kf t p = \<lparr>kf_transform = t, kf_opacity = p\<rparr>"

definition object_prototype_names :: "string list" where
  "object_prototype_names = [''constructor'', ''__proto__'', ''hasOwnProperty'',
     ''isPrototypeOf'', ''propertyIsEnumerable'', ''toLocaleString'', ''toString'',
     ''valueOf'', ''__defineGetter__'', ''__defineSetter__'', ''__lookupGetter__'',
     ''__lookupSetter__'']"

definition keyframes :: "string \<Rightarrow> kf_lookup" where
  "keyframes name =
     (if name = ''spin'' then Keyframes
        [kf (Some ''rotate(0deg)'') None, kf (Some ''rotate(360deg)'') None]
      else if name = ''pulse'' then Keyframes
        [kf (Some ''scale(1)'') (Some (Fin 1)), kf (Some ''scale(1.05)'') (Some (Fin 0.8)),
         kf (Some ''scale(1)'') (Some (Fin 1))]
      else if name = ''bounce'' then Keyframes
        [kf (Some ''translateY(0)'') None, kf (Some ''translateY(-10px)'') None,
         kf (Some ''translateY(0)'') None]
      else if name = ''dots'' then Keyframes
        [kf None (Some (Fin 0.4)), kf None (Some (Fin 1)), kf None (Some (Fin 0.4))]
      else if name \<in> set object_prototype_names then Inherited
      else Undefined)"

text \<open>
  An animation started by \<^verbatim>\<open>element.animate(keyframes[animation], {duration,
  iterations: Infinity, easing: 'ease-in-out'})\<close>. The call is taken to return a handle
  for every argument; what the platform does with a value that is no keyframe set is
  outside this source.
\<close>

record animation =
  an_keyframes :: kf_lookup
  an_duration :: "jsnum option"
  an_iterations :: jsnum
  an_easing :: string

text \<open>
  The state of one mounted hook and of what it has attached to the page:
  \<^item> \<open>props\<close>: the \<^verbatim>\<open>options\<close> of the latest render;
  \<^item> the four \<^verbatim>\<open>useState\<close> booleans;
  \<^item> \<open>attached\<close>: \<^verbatim>\<open>ref.current\<close> is an element, and \<open>style\<close> its inline style;
  \<^item> \<open>animations\<close>: the running (not cancelled) animations the hook started, by handle;
  \<^item> \<open>loading_cleanup\<close>: the handle that the cleanup of the loading effect cancels;
  \<^item> \<open>gpu_deps\<close>: the dependencies \<^verbatim>\<open>[gpu, effectivePerformance]\<close> of the last run of
    the GPU effect (\<open>None\<close> before the first);
  \<^item> \<open>magnetic_listener\<close>, \<open>tilt_listener\<close>: the parameters captured by the listeners
    the magnetic and tilt effects have registered, if any;
  \<^item> \<open>ripples\<close>: the ripple spans appended to the element, by handle, with their
    \<^verbatim>\<open>cssText\<close>; \<open>timers\<close>: the pending \<^verbatim>\<open>setTimeout\<close> calls (ripple, delay);
  \<^item> \<open>keyframes_style\<close>: the text of the \<^verbatim>\<open>#ripple-keyframes\<close> style element of
    the document, once created;
  \<^item> \<open>vibrations\<close>: the number of calls of \<^verbatim>\<open>navigator.vibrate(10)\<close>.
\<close>

record state =
  props :: options
  isHovered :: bool
  isFocused :: bool
  isActive :: bool
  isLoading :: bool
  attached :: bool
  style :: style
  animations :: "(nat \<times> animation) list"
  next_handle :: nat
  loading_cleanup :: "nat option"
  gpu_deps :: "(bool \<times> string) option"
  magnetic_listener :: "magnetic_params option"
  tilt_listener :: "tilt_params option"
  ripples :: "(nat \<times> css) list"
  timers :: "(nat \<times> jsnum option) list"
  keyframes_style :: "css option"
  vibrations :: nat

definition init_state :: "options \<Rightarrow> bool \<Rightarrow> style \<Rightarrow> css option \<Rightarrow> state" where
  "init_state opts att st0 ks = \<lparr>props = opts, isHovered = False, isFocused = False,
     isActive = False, isLoading = False, attached = att, style = st0, animations = [],
     next_handle = 0, loading_cleanup = None, gpu_deps = None, magnetic_listener = None,
     tilt_listener = None, ripples = [], timers = [], keyframes_style = ks,
     vibrations = 0\<rparr>"

definition upd_style :: "(style \<Rightarrow> style) \<Rightarrow> state \<Rightarrow> state" where
  "upd_style f s = s\<lparr>style := f (style s)\<rparr>"

section \<open>The effects\<close>

subsection \<open>GPU optimisation\<close>

definition setupGPUOptimization :: "resolved \<Rightarrow> string \<Rightarrow> state \<Rightarrow> state" where
  "setupGPUOptimization r perf s =
     (if \<not> attached s \<or> \<not> gpu r then s
      else upd_style (\<lambda>st. st\<lparr>
        st_willChange := [Lit ''transform, opacity, filter''],
        st_backfaceVisibility := [Lit ''hidden''],
        st_perspective := [Lit ''1000px''],
        st_transformStyle :=
          (if perf = ''economy'' then [Lit ''flat''] else [Lit ''preserve-3d''])\<rparr>) s)"

text \<open>
  The cleanup of the GPU effect, with the \<^verbatim>\<open>gpu\<close> its closure captured.
  \<^verbatim>\<open>animationFrameRef.current\<close> is never assigned, so nothing is cancelled.
\<close>

definition gpuCleanup :: "bool \<Rightarrow> state \<Rightarrow> state" where
  "gpuCleanup g s =
     (if attached s \<and> g then upd_style (\<lambda>st. st\<lparr>st_willChange := [Lit ''auto'']\<rparr>) s
      else s)"

subsection \<open>Hover\<close>

definition getEffectScale :: "string \<Rightarrow> jsnum" where
  "getEffectScale perf =
     (if perf = ''economy'' then Fin 0.5
      else if perf = ''balanced'' then Fin 0.8
      else if perf = ''high'' then Fin 1.0
      else Fin 0.8)"

definition adjustedDuration :: "resolved \<Rightarrow> string \<Rightarrow> bool \<Rightarrow> jsnum" where
  "adjustedDuration r perf reduce =
     (if reduce then Fin 1 else js_mul (to_number (h_duration (hoverP r))) (getEffectScale perf))"

definition hover_transform :: "resolved \<Rightarrow> string \<Rightarrow> css" where
  "hover_transform r perf =
     (let gpuTransform = (if gpu r then ''translateZ(0)'' else []);
          effectScale = getEffectScale perf;
          scale = js_add (Fin 1) (js_mul (js_sub (to_number (h_scale (hoverP r))) (Fin 1)) effectScale);
          translateY = js_mul (to_number (h_translateY (hoverP r))) effectScale
      in [Lit ''scale('', Val scale, Lit '') rotate('', interp_num (h_rotate (hoverP r)),
          Lit ''deg) translateY('', Val translateY, Lit ''px) '', Lit gpuTransform])"

definition hover_filter :: "resolved \<Rightarrow> string \<Rightarrow> css" where
  "hover_filter r perf =
     (let effectScale = getEffectScale perf;
          brightness =
            js_add (Fin 1) (js_mul (js_sub (to_number (h_brightness (hoverP r))) (Fin 1)) effectScale)
      in if perf \<noteq> ''economy''
         then [Lit ''brightness('', Val brightness, Lit '') saturate('',
               interp_num (h_saturate (hoverP r)), Lit '') blur('', interp_num (h_blur (hoverP r)),
               Lit ''px)'']
         else [Lit ''none''])"

definition applyHoverEffects :: "resolved \<Rightarrow> string \<Rightarrow> bool \<Rightarrow> state \<Rightarrow> state" where
  "applyHoverEffects r perf reduce s =
     (if \<not> attached s \<or> reduce then s
      else if isHovered s then
        upd_style (\<lambda>st. st\<lparr>
          st_transform := hover_transform r perf,
          st_filter := hover_filter r perf,
          st_transition := [Lit ''all '', Val (adjustedDuration r perf reduce), Lit ''ms '',
                            interp_str (h_easing (hoverP r))]\<rparr>) s
      else
        upd_style (\<lambda>st. st\<lparr>
          st_transform := (if gpu r then [Lit ''translateZ(0)''] else []),
          st_filter := [Lit ''none'']\<rparr>) s)"

subsection \<open>Focus\<close>

definition focusEffect :: "resolved \<Rightarrow> state \<Rightarrow> state" where
  "focusEffect r s =
     (if \<not> attached s then s
      else if isFocused s then
        upd_style (\<lambda>st. st\<lparr>
          st_boxShadow :=
            (if truthy_bool (f_glow (focusP r))
             then [Lit ''0 0 20px '', interp_str (f_glowColor (focusP r))]
             else st_boxShadow st),
          st_transform := [Lit ''scale('', interp_num (f_scale (focusP r)), Lit '')''],
          st_transition :=
            [Lit ''all '', interp_num (f_duration (focusP r)), Lit ''ms ease-out'']\<rparr>) s
      else upd_style (\<lambda>st. st\<lparr>st_boxShadow := [Lit ''none'']\<rparr>) s)"

subsection \<open>Active (press)\<close>

definition active_transform :: "resolved \<Rightarrow> css" where
  "active_transform r =
     [Lit ''scale('', interp_num (a_scale (activeP r)), Lit '') rotate('',
      interp_num (a_rotate (activeP r)), Lit ''deg)'']"

definition active_transition :: "resolved \<Rightarrow> css" where
  "active_transition r =
     [Lit ''all '', interp_num (a_duration (activeP r)), Lit ''ms ease-out'']"

definition activeEffect :: "resolved \<Rightarrow> env \<Rightarrow> state \<Rightarrow> state" where
  "activeEffect r e s =
     (if \<not> attached s then s
      else if isActive s then
        (let s' = upd_style (\<lambda>st. st\<lparr>
                    st_transform := active_transform r,
                    st_transition := active_transition r\<rparr>) s
         in if (a_feedback (activeP r) = Some ''haptic''
               \<or> a_feedback (activeP r) = Some ''both'')
               \<and> canVibrate e
            then s'\<lparr>vibrations := vibrations s' + 1\<rparr> else s')
      else s)"

subsection \<open>Loading\<close>

definition loading_animation :: "resolved \<Rightarrow> animation" where
  "loading_animation r =
     \<lparr>an_keyframes = keyframes (property_key (l_animation (loadingP r))),
      an_duration = l_duration (loadingP r),
      an_iterations = PInf,
      an_easing = ''ease-in-out''\<rparr>"

definition loadingEffect :: "resolved \<Rightarrow> state \<Rightarrow> state" where
  "loadingEffect r s =
     (if \<not> attached s \<or> \<not> isLoading s then s\<lparr>loading_cleanup := None\<rparr>
      else
        (let h = next_handle s;
             anim = loading_animation r
         in s\<lparr>animations := animations s @ [(h, anim)],
              next_handle := Suc h,
              loading_cleanup := Some h\<rparr>))"

text \<open>\<^verbatim>\<open>return () => anim.cancel()\<close>: the cancelled animation no longer runs.\<close>

definition loadingCleanup :: "state \<Rightarrow> state" where
  "loadingCleanup s =
     (case loading_cleanup s of
        None \<Rightarrow> s
      | Some h \<Rightarrow> s\<lparr>animations := filter (\<lambda>a. fst a \<noteq> h) (animations s),
                     loading_cleanup := None\<rparr>)"

subsection \<open>Magnetic\<close>

text \<open>
  The effect registers a \<^verbatim>\<open>mousemove\<close> listener on the document and a
  \<^verbatim>\<open>mouseleave\<close> listener on the element, unless the strength is falsy; its cleanup
  removes both.
\<close>

definition magneticEffect :: "resolved \<Rightarrow> state \<Rightarrow> state" where
  "magneticEffect r s =
     (if \<not> attached s \<or> \<not> truthy_num (m_strength (magneticP r))
      then s\<lparr>magnetic_listener := None\<rparr>
      else s\<lparr>magnetic_listener := Some (magneticP r)\<rparr>)"

definition magneticCleanup :: "state \<Rightarrow> state" where
  "magneticCleanup s = s\<lparr>magnetic_listener := None\<rparr>"

text \<open>
  The displacement the listener computes inside the threshold:
  \<^verbatim>\<open>(deltaX / distance) * strength * (magneticDefaults.distance - distance)\<close>
  and the same for \<open>Y\<close>.
\<close>

definition magnetic_delta :: "rect \<Rightarrow> mouse \<Rightarrow> jsnum \<times> jsnum" where
  "magnetic_delta rc ev =
     (let centerX = js_add (rect_left rc) (js_div (rect_width rc) (Fin 2));
          centerY = js_add (rect_top rc) (js_div (rect_height rc) (Fin 2))
      in (js_sub (clientX ev) centerX, js_sub (clientY ev) centerY))"

definition magnetic_distance :: "rect \<Rightarrow> mouse \<Rightarrow> jsnum" where
  "magnetic_distance rc ev =
     (let (deltaX, deltaY) = magnetic_delta rc ev
      in js_sqrt (js_add (js_mul deltaX deltaX) (js_mul deltaY deltaY)))"

definition magnetic_translate :: "magnetic_params \<Rightarrow> rect \<Rightarrow> mouse \<Rightarrow> jsnum \<times> jsnum" where
  "magnetic_translate mp rc ev =
     (let (deltaX, deltaY) = magnetic_delta rc ev;
          distance = magnetic_distance rc ev;
          strength = to_number (m_strength mp);
          translateX =
            js_mul (js_mul (js_div deltaX distance) strength) (js_sub (to_number (m_distance mp)) distance);
          translateY =
            js_mul (js_mul (js_div deltaY distance) strength) (js_sub (to_number (m_distance mp)) distance)
      in (translateX, translateY))"

definition magnetic_handleMouseMove :: "magnetic_params \<Rightarrow> rect \<Rightarrow> mouse \<Rightarrow> state \<Rightarrow> state" where
  "magnetic_handleMouseMove mp rc ev s =
     (if js_lt (magnetic_distance rc ev) (to_number (m_distance mp)) then
        (let (translateX, translateY) = magnetic_translate mp rc ev
         in upd_style (\<lambda>st. st\<lparr>st_transform :=
              [Lit ''translate('', Val translateX, Lit ''px, '', Val translateY, Lit ''px)'']\<rparr>) s)
      else upd_style (\<lambda>st. st\<lparr>st_transform := [Lit ''translate(0, 0)'']\<rparr>) s)"

definition magnetic_handleMouseLeave :: "state \<Rightarrow> state" where
  "magnetic_handleMouseLeave s =
     upd_style (\<lambda>st. st\<lparr>st_transform := [Lit ''translate(0, 0)'']\<rparr>) s"

subsection \<open>Ripple\<close>

text \<open>
  The \<^verbatim>\<open>cssText\<close> of a ripple span and the text of the shared keyframes style
  (white space of the source's template normalised).
\<close>

definition ripple_cssText ::
  "string option \<Rightarrow> jsnum option \<Rightarrow> jsnum \<Rightarrow> jsnum \<Rightarrow> jsnum \<Rightarrow> css" where
  "ripple_cssText color duration x y sz =
     [Lit ''position: absolute; border-radius: 50%; background: '', interp_str color,
      Lit ''; transform: scale(0); animation: ripple-animation '', interp_num duration,
      Lit ''ms ease-out; left: '', Val x, Lit ''px; top: '', Val y,
      Lit ''px; width: '', Val sz, Lit ''px; height: '', Val sz,
      Lit ''px; pointer-events: none;'']"

definition ripple_keyframes_text :: "jsnum option \<Rightarrow> css" where
  "ripple_keyframes_text scale =
     [Lit ''@keyframes ripple-animation { to { transform: scale('', interp_num scale,
      Lit ''); opacity: 0; } }'']"

definition ripple_size :: "rect \<Rightarrow> jsnum" where
  "ripple_size rc = js_max (rect_width rc) (rect_height rc)"

definition ripple_x :: "rect \<Rightarrow> mouse \<Rightarrow> jsnum" where
  "ripple_x rc ev =
     js_sub (js_sub (clientX ev) (rect_left rc)) (js_div (ripple_size rc) (Fin 2))"

definition ripple_y :: "rect \<Rightarrow> mouse \<Rightarrow> jsnum" where
  "ripple_y rc ev =
     js_sub (js_sub (clientY ev) (rect_top rc)) (js_div (ripple_size rc) (Fin 2))"

definition createRipple :: "resolved \<Rightarrow> rect \<Rightarrow> mouse \<Rightarrow> state \<Rightarrow> state" where
  "createRipple r rc ev s =
     (if \<not> attached s then s
      else
        (let h = next_handle s;
             ripple = ripple_cssText (r_color (rippleP r)) (r_duration (rippleP r))
                        (ripple_x rc ev) (ripple_y rc ev) (ripple_size rc)
         in s\<lparr>keyframes_style :=
                (case keyframes_style s of
                   None \<Rightarrow> Some (ripple_keyframes_text (r_scale (rippleP r)))
                 | Some t \<Rightarrow> Some t),
              ripples := ripples s @ [(h, ripple)],
              timers := timers s @ [(h, r_duration (rippleP r))],
              next_handle := Suc h\<rparr>))"

definition handleClick :: "rect \<Rightarrow> mouse \<Rightarrow> state \<Rightarrow> state" where
  "handleClick rc ev s =
     (let r = resolve (props s)
      in if truthy_text (r_color (rippleP r)) then createRipple r rc ev s else s)"

text \<open>A pending timeout fires: \<^verbatim>\<open>ripple.remove()\<close>.\<close>

definition timeout_fires :: "nat \<Rightarrow> state \<Rightarrow> state" where
  "timeout_fires h s =
     (if h \<in> fst ` set (timers s)
      then s\<lparr>ripples := filter (\<lambda>x. fst x \<noteq> h) (ripples s),
             timers := filter (\<lambda>x. fst x \<noteq> h) (timers s)\<rparr>
      else s)"

subsection \<open>Tilt\<close>

definition tiltEffect :: "resolved \<Rightarrow> state \<Rightarrow> state" where
  "tiltEffect r s =
     (if \<not> attached s \<or> \<not> truthy_num (t_maxTilt (tiltP r))
      then s\<lparr>tilt_listener := None\<rparr>
      else s\<lparr>tilt_listener := Some (tiltP r)\<rparr>)"

definition tiltCleanup :: "state \<Rightarrow> state" where
  "tiltCleanup s = s\<lparr>tilt_listener := None\<rparr>"

definition tilt_handleMouseMove :: "tilt_params \<Rightarrow> rect \<Rightarrow> mouse \<Rightarrow> state \<Rightarrow> state" where
  "tilt_handleMouseMove tp rc ev s =
     (let centerX = js_add (rect_left rc) (js_div (rect_width rc) (Fin 2));
          centerY = js_add (rect_top rc) (js_div (rect_height rc) (Fin 2));
          deltaX = js_div (js_sub (clientX ev) centerX) (js_div (rect_width rc) (Fin 2));
          deltaY = js_div (js_sub (clientY ev) centerY) (js_div (rect_height rc) (Fin 2));
          tiltX = js_mul deltaY (to_number (t_maxTilt tp));
          tiltY = js_mul deltaX (to_number (t_maxTilt tp))
      in upd_style (\<lambda>st. st\<lparr>
           st_transform :=
             [Lit ''perspective(1000px) rotateX('', Val (js_neg tiltX), Lit ''deg) rotateY('',
              Val tiltY, Lit ''deg) scale('', interp_num (t_scale tp), Lit '')''],
           st_transition := [Lit ''transform '', interp_num (t_speed tp), Lit ''ms ease-out'']\<rparr>) s)"

definition tilt_handleMouseLeave :: "state \<Rightarrow> state" where
  "tilt_handleMouseLeave s =
     upd_style (\<lambda>st. st\<lparr>st_transform :=
       [Lit ''perspective(1000px) rotateX(0deg) rotateY(0deg) scale(1)'']\<rparr>) s"

section \<open>Rendering and events\<close>

text \<open>
  One render of the component followed by its commit. The seven default objects are
  built anew by every render, and each of them stands in the dependency list of its
  effect (for hover, through \<^verbatim>\<open>applyHoverEffects\<close>), so the hover, focus, active,
  loading, magnetic and tilt effects run after every render. The GPU effect depends on
  \<^verbatim>\<open>gpu\<close> and the memoised tier only: it runs, after the cleanup of its last run,
  when one of the two has changed. React runs the cleanups of the effects it is about to
  run again first, in the order of the hooks, then the effects in that order.
\<close>

definition gpuEffectCleanup :: "resolved \<Rightarrow> string \<Rightarrow> state \<Rightarrow> state" where
  "gpuEffectCleanup r perf s =
     (case gpu_deps s of
        None \<Rightarrow> s
      | Some (g, p) \<Rightarrow> if (g, p) = (gpu r, perf) then s else gpuCleanup g s)"

definition gpuEffect :: "resolved \<Rightarrow> string \<Rightarrow> state \<Rightarrow> state" where
  "gpuEffect r perf s =
     (if gpu_deps s = Some (gpu r, perf) then s
      else (setupGPUOptimization r perf s)\<lparr>gpu_deps := Some (gpu r, perf)\<rparr>)"

definition run_cleanups :: "resolved \<Rightarrow> string \<Rightarrow> state \<Rightarrow> state" where
  "run_cleanups r perf s =
     tiltCleanup (magneticCleanup (loadingCleanup (gpuEffectCleanup r perf s)))"

definition run_effects :: "resolved \<Rightarrow> string \<Rightarrow> bool \<Rightarrow> env \<Rightarrow> state \<Rightarrow> state" where
  "run_effects r perf reduce e s =
     (let s1 = gpuEffect r perf s;
          s2 = applyHoverEffects r perf reduce s1;
          s3 = focusEffect r s2;
          s4 = activeEffect r e s3;
          s5 = loadingEffect r s4;
          s6 = magneticEffect r s5
      in tiltEffect r s6)"

definition render :: "env \<Rightarrow> state \<Rightarrow> state" where
  "render e s =
     (let r = resolve (props s);
          perf = effectivePerformance (performance r) e;
          reduce = shouldReduceMotion (prefersReducedMotion r) e
      in run_effects r perf reduce e (run_cleanups r perf s))"

text \<open>
  Mounting: the first render, on an element (or none) whose inline style is \<open>st0\<close>, in a
  document whose \<^verbatim>\<open>#ripple-keyframes\<close> style is \<open>ks\<close>.
\<close>

definition mount :: "env \<Rightarrow> options \<Rightarrow> bool \<Rightarrow> style \<Rightarrow> css option \<Rightarrow> state" where
  "mount e opts att st0 ks = render e (init_state opts att st0 ks)"

text \<open>
  Unmounting runs every cleanup. React has detached the ref by then
  (\<^verbatim>\<open>ref.current\<close> is \<^verbatim>\<open>null\<close>), so the cleanup of the GPU effect, which reads the
  ref, writes nothing; the other cleanups hold the animation and the element in their
  closures.
\<close>

definition unmount :: "state \<Rightarrow> state" where
  "unmount s =
     (let s0 = s\<lparr>attached := False\<rparr>;
          s1 = (case gpu_deps s0 of None \<Rightarrow> s0 | Some (g, p) \<Rightarrow> gpuCleanup g s0)
      in tiltCleanup (magneticCleanup (loadingCleanup s1)))"

text \<open>
  The state setters: a setter called with the current value leaves the component alone,
  one called with a new value renders again.
\<close>

definition setIsHovered :: "env \<Rightarrow> bool \<Rightarrow> state \<Rightarrow> state" where
  "setIsHovered e b s = (if isHovered s = b then s else render e (s\<lparr>isHovered := b\<rparr>))"

definition setIsFocused :: "env \<Rightarrow> bool \<Rightarrow> state \<Rightarrow> state" where
  "setIsFocused e b s = (if isFocused s = b then s else render e (s\<lparr>isFocused := b\<rparr>))"

definition setIsActive :: "env \<Rightarrow> bool \<Rightarrow> state \<Rightarrow> state" where
  "setIsActive e b s = (if isActive s = b then s else render e (s\<lparr>isActive := b\<rparr>))"

definition setIsLoading :: "env \<Rightarrow> bool \<Rightarrow> state \<Rightarrow> state" where
  "setIsLoading e b s = (if isLoading s = b then s else render e (s\<lparr>isLoading := b\<rparr>))"

text \<open>
  What can happen to a mounted hook: a call of one of the seven returned handlers, a call
  of \<^verbatim>\<open>setIsLoading\<close>, a render of the parent with new options, a native event
  reaching one of the listeners the magnetic and tilt effects registered, a ripple's
  timeout.
\<close>

datatype event =
    OnMouseEnter
  | OnMouseLeave
  | OnFocus
  | OnBlur
  | OnMouseDown
  | OnMouseUp
  | OnClick rect mouse
  | SetIsLoading bool
  | Rerender options
  | DocumentMouseMove rect mouse
  | ElementMouseMove rect mouse
  | ElementMouseLeave
  | Timeout nat

definition step :: "env \<Rightarrow> state \<Rightarrow> event \<Rightarrow> state" where
  "step e s ev =
     (case ev of
        OnMouseEnter \<Rightarrow> setIsHovered e True s
      | OnMouseLeave \<Rightarrow> setIsHovered e False s
      | OnFocus \<Rightarrow> setIsFocused e True s
      | OnBlur \<Rightarrow> setIsFocused e False s
      | OnMouseDown \<Rightarrow> setIsActive e True s
      | OnMouseUp \<Rightarrow> setIsActive e False s
      | OnClick rc m \<Rightarrow> handleClick rc m s
      | SetIsLoading b \<Rightarrow> setIsLoading e b s
      | Rerender opts \<Rightarrow> render e (s\<lparr>props := opts\<rparr>)
      | DocumentMouseMove rc m \<Rightarrow>
          (case magnetic_listener s of
             None \<Rightarrow> s
           | Some mp \<Rightarrow> magnetic_handleMouseMove mp rc m s)
      | ElementMouseMove rc m \<Rightarrow>
          (case tilt_listener s of
             None \<Rightarrow> s
           | Some tp \<Rightarrow> tilt_handleMouseMove tp rc m s)
      | ElementMouseLeave \<Rightarrow>
          (let s1 = (case magnetic_listener s of
                       None \<Rightarrow> s
                     | Some mp \<Rightarrow> magnetic_handleMouseLeave s)
           in case tilt_listener s1 of
                None \<Rightarrow> s1
              | Some tp \<Rightarrow> tilt_handleMouseLeave s1)
      | Timeout h \<Rightarrow> timeout_fires h s)"

fun run :: "env \<Rightarrow> state \<Rightarrow> event list \<Rightarrow> state" where
  "run e s [] = s"
| "run e s (ev # evs) = run e (step e s ev) evs"

section \<open>The specification's classifier, invariants and example inputs\<close>

text \<open>
  The classifier as the specification words it: an explicit mode passes through, and in
  mode \<^verbatim>\<open>auto\<close> a missing field of the snapshot takes its mid-range default before the
  thresholds are applied. It is compared with \<open>effectivePerformance\<close> below.
\<close>

definition classify_spec :: "string \<Rightarrow> env \<Rightarrow> string" where
  "classify_spec mode e =
     (if mode \<noteq> ''auto'' then mode
      else
        let memory = dflt (Fin 4) (deviceMemory e);
            cores = dflt (Fin 4) (hardwareConcurrency e);
            network = dflt ''4g'' (effectiveType e)
        in if js_lt memory (Fin 2) \<or> js_lt cores (Fin 2) \<or> network = ''slow-2g''
           then ''economy''
           else if js_ge memory (Fin 8) \<and> js_ge cores (Fin 8) \<and> network = ''4g''
           then ''high''
           else ''balanced'')"

text \<open>The snapshot with every falsy field (\<^verbatim>\<open>0\<close>, \<^verbatim>\<open>NaN\<close>, the empty string) removed.\<close>

definition falsy_as_missing :: "env \<Rightarrow> env" where
  "falsy_as_missing e = e\<lparr>
     deviceMemory :=
       (case deviceMemory e of
          None \<Rightarrow> None
        | Some v \<Rightarrow> if truthy v then Some v else None),
     hardwareConcurrency :=
       (case hardwareConcurrency e of
          None \<Rightarrow> None
        | Some v \<Rightarrow> if truthy v then Some v else None),
     effectiveType :=
       (case effectiveType e of
          None \<Rightarrow> None
        | Some v \<Rightarrow> if truthy_str v then Some v else None)\<rparr>"

text \<open>
  The running animations are exactly the one the loading effect's cleanup holds, if it
  holds one; it holds one when the element is bound and \<^verbatim>\<open>isLoading\<close> is set, and
  that one was started with the parameters of the latest render.
\<close>

definition loading_inv :: "state \<Rightarrow> bool" where
  "loading_inv s =
     (case loading_cleanup s of
        None \<Rightarrow> animations s = [] \<and> \<not> (attached s \<and> isLoading s)
      | Some h \<Rightarrow>
          animations s = [(h, loading_animation (resolve (props s)))]
          \<and> attached s \<and> isLoading s)"

text \<open>Every handle given out so far is below the next one.\<close>

definition handles_below :: "state \<Rightarrow> bool" where
  "handles_below s =
     (list_all (\<lambda>x. fst x < next_handle s) (ripples s)
      \<and> list_all (\<lambda>x. fst x < next_handle s) (timers s))"

text \<open>
  Example inputs: a browser that exposes no capability field, prefers no reduced motion
  and cannot vibrate; an element with no inline style; a 100 by 100 box at the origin.
\<close>

definition plain_env :: env where
  "plain_env = \<lparr>deviceMemory = None, hardwareConcurrency = None, effectiveType = None,
     matchesReduce = False, canVibrate = False\<rparr>"

definition blank_style :: style where
  "blank_style = \<lparr>st_transform = [], st_filter = [], st_transition = [],
     st_boxShadow = [], st_willChange = [], st_backfaceVisibility = [],
     st_perspective = [], st_transformStyle = []\<rparr>"

definition box100 :: rect where
  "box100 = \<lparr>rect_left = Fin 0, rect_top = Fin 0, rect_width = Fin 100,
     rect_height = Fin 100\<rparr>"

definition at_point :: "real \<Rightarrow> real \<Rightarrow> mouse" where
  "at_point x y = \<lparr>clientX = Fin x, clientY = Fin y\<rparr>"

text \<open>The hook mounted with no options on such an element, in such a browser.\<close>

definition plain_mounted :: state where
  "plain_mounted = mount plain_env empty_options True blank_style None"

text \<open>
  The part of the state that no effect and no cleanup touches: the options, the four
  booleans, the binding of the element, the ripples and their timers.
\<close>

definition untouched :: "state \<Rightarrow> state \<Rightarrow> bool" where
  "untouched s t =
     (props t = props s \<and> isHovered t = isHovered s \<and> isFocused t = isFocused s
      \<and> isActive t = isActive s \<and> isLoading t = isLoading s \<and> attached t = attached s
      \<and> ripples t = ripples s \<and> timers t = timers s
      \<and> keyframes_style t = keyframes_style s)"

text \<open>The hover effect followed by the focus effect.\<close>

definition hover_focus :: "resolved \<Rightarrow> string \<Rightarrow> bool \<Rightarrow> state \<Rightarrow> state" where
  "hover_focus r perf reduce s = focusEffect r (applyHoverEffects r perf reduce s)"

text \<open>
  The part of the state that, among the effects and cleanups, only those of the loading
  effect touch.
\<close>

definition same_animations :: "state \<Rightarrow> state \<Rightarrow> bool" where
  "same_animations s t =
     (animations t = animations s \<and> loading_cleanup t = loading_cleanup s
      \<and> next_handle t = next_handle s)"

section \<open>Frames of the effects\<close>

lemma upd_style_frame [simp]:
  "props (upd_style f s) = props s"
  "isHovered (upd_style f s) = isHovered s"
  "isFocused (upd_style f s) = isFocused s"
  "isActive (upd_style f s) = isActive s"
  "isLoading (upd_style f s) = isLoading s"
  "attached (upd_style f s) = attached s"
  "style (upd_style f s) = f (style s)"
  "animations (upd_style f s) = animations s"
  "next_handle (upd_style f s) = next_handle s"
  "loading_cleanup (upd_style f s) = loading_cleanup s"
  "gpu_deps (upd_style f s) = gpu_deps s"
  "magnetic_listener (upd_style f s) = magnetic_listener s"
  "tilt_listener (upd_style f s) = tilt_listener s"
  "ripples (upd_style f s) = ripples s"
  "timers (upd_style f s) = timers s"
  "keyframes_style (upd_style f s) = keyframes_style s"
  "vibrations (upd_style f s) = vibrations s"
  by (simp_all add: upd_style_def)

lemma untouched_refl [simp]: "untouched s s"
  by (simp add: untouched_def)

lemma untouched_trans: "untouched s t \<Longrightarrow> untouched t u \<Longrightarrow> untouched s u"
  by (simp add: untouched_def)

lemma untouched_cleanups [simp]:
  "untouched s (gpuCleanup g s)"
  "untouched s (loadingCleanup s)"
  "untouched s (magneticCleanup s)"
  "untouched s (tiltCleanup s)"
  by (simp_all add: untouched_def gpuCleanup_def loadingCleanup_def magneticCleanup_def
      tiltCleanup_def split: option.splits)

lemma untouched_gpu [simp]:
  "untouched s (setupGPUOptimization r perf s)"
  "untouched s (gpuEffectCleanup r perf s)"
  "untouched s (gpuEffect r perf s)"
  by (simp_all add: untouched_def setupGPUOptimization_def gpuEffectCleanup_def
      gpuEffect_def gpuCleanup_def split: option.splits)

lemma untouched_effects [simp]:
  "untouched s (applyHoverEffects r perf reduce s)"
  "untouched s (focusEffect r s)"
  "untouched s (activeEffect r e s)"
  "untouched s (loadingEffect r s)"
  "untouched s (magneticEffect r s)"
  "untouched s (tiltEffect r s)"
  by (simp_all add: untouched_def applyHoverEffects_def focusEffect_def
      activeEffect_def loadingEffect_def magneticEffect_def tiltEffect_def Let_def)

lemma untouchedD:
  assumes "untouched s t"
  shows "props t = props s" and "isHovered t = isHovered s" and "isFocused t = isFocused s"
    and "isActive t = isActive s" and "isLoading t = isLoading s"
    and "attached t = attached s" and "ripples t = ripples s" and "timers t = timers s"
    and "keyframes_style t = keyframes_style s"
  using assms by (simp_all add: untouched_def)

lemmas all_untouched = untouched_cleanups untouched_gpu untouched_effects

lemmas effects_keep [simp] =
  all_untouched [THEN untouchedD(1)] all_untouched [THEN untouchedD(2)]
  all_untouched [THEN untouchedD(3)] all_untouched [THEN untouchedD(4)]
  all_untouched [THEN untouchedD(5)] all_untouched [THEN untouchedD(6)]
  all_untouched [THEN untouchedD(7)] all_untouched [THEN untouchedD(8)]
  all_untouched [THEN untouchedD(9)]

lemma untouched_run_cleanups: "untouched s (run_cleanups r perf s)"
  by (simp add: run_cleanups_def untouched_def)

lemma untouched_run_effects: "untouched s (run_effects r perf reduce e s)"
  by (simp add: run_effects_def untouched_def Let_def)

lemma untouched_render: "untouched s (render e s)"
  by (metis render_def untouched_run_cleanups untouched_run_effects untouched_trans)

lemmas render_keep =
  untouched_render [THEN untouchedD(1)] untouched_render [THEN untouchedD(2)]
  untouched_render [THEN untouchedD(3)] untouched_render [THEN untouchedD(4)]
  untouched_render [THEN untouchedD(5)] untouched_render [THEN untouchedD(6)]
  untouched_render [THEN untouchedD(7)] untouched_render [THEN untouchedD(8)]
  untouched_render [THEN untouchedD(9)]

section \<open>What a render leaves in the transform, filter and transition\<close>

lemma style_kept [simp]:
  "style (loadingCleanup s) = style s"
  "style (magneticCleanup s) = style s"
  "style (tiltCleanup s) = style s"
  "style (loadingEffect r s) = style s"
  "style (magneticEffect r s) = style s"
  "style (tiltEffect r s) = style s"
  by (simp_all add: loadingCleanup_def magneticCleanup_def tiltCleanup_def
      loadingEffect_def magneticEffect_def tiltEffect_def Let_def split: option.splits)

lemma gpu_style_kept [simp]:
  "st_transform (style (gpuCleanup g s)) = st_transform (style s)"
  "st_filter (style (gpuCleanup g s)) = st_filter (style s)"
  "st_transition (style (gpuCleanup g s)) = st_transition (style s)"
  "st_transform (style (setupGPUOptimization r perf s)) = st_transform (style s)"
  "st_filter (style (setupGPUOptimization r perf s)) = st_filter (style s)"
  "st_transition (style (setupGPUOptimization r perf s)) = st_transition (style s)"
  by (simp_all add: gpuCleanup_def setupGPUOptimization_def)

lemma gpu_effect_style_kept [simp]:
  "st_transform (style (gpuEffectCleanup r perf s)) = st_transform (style s)"
  "st_filter (style (gpuEffectCleanup r perf s)) = st_filter (style s)"
  "st_transition (style (gpuEffectCleanup r perf s)) = st_transition (style s)"
  "st_transform (style (gpuEffect r perf s)) = st_transform (style s)"
  "st_filter (style (gpuEffect r perf s)) = st_filter (style s)"
  "st_transition (style (gpuEffect r perf s)) = st_transition (style s)"
  by (simp_all add: gpuEffectCleanup_def gpuEffect_def split: option.splits)

lemma cleanups_style:
  "st_transform (style (run_cleanups r perf s)) = st_transform (style s)"
  "st_filter (style (run_cleanups r perf s)) = st_filter (style s)"
  "st_transition (style (run_cleanups r perf s)) = st_transition (style s)"
  by (simp_all add: run_cleanups_def)

lemma active_style:
  "st_transform (style (activeEffect r e s)) =
     (if attached s \<and> isActive s then active_transform r else st_transform (style s))"
  "st_transition (style (activeEffect r e s)) =
     (if attached s \<and> isActive s then active_transition r else st_transition (style s))"
  "st_filter (style (activeEffect r e s)) = st_filter (style s)"
  by (simp_all add: activeEffect_def Let_def)

lemma focus_style:
  "st_transform (style (focusEffect r s)) =
     (if attached s \<and> isFocused s then [Lit ''scale('', interp_num (f_scale (focusP r)), Lit '')'']
      else st_transform (style s))"
  "st_transition (style (focusEffect r s)) =
     (if attached s \<and> isFocused s
      then [Lit ''all '', interp_num (f_duration (focusP r)), Lit ''ms ease-out'']
      else st_transition (style s))"
  "st_filter (style (focusEffect r s)) = st_filter (style s)"
  by (simp_all add: focusEffect_def)

lemma hover_style:
  "st_transform (style (applyHoverEffects r perf reduce s)) =
     (if \<not> attached s \<or> reduce then st_transform (style s)
      else if isHovered s then hover_transform r perf
      else if gpu r then [Lit ''translateZ(0)''] else [])"
  "st_transition (style (applyHoverEffects r perf reduce s)) =
     (if attached s \<and> \<not> reduce \<and> isHovered s
      then [Lit ''all '', Val (adjustedDuration r perf reduce), Lit ''ms '',
            interp_str (h_easing (hoverP r))]
      else st_transition (style s))"
  "st_filter (style (applyHoverEffects r perf reduce s)) =
     (if \<not> attached s \<or> reduce then st_filter (style s)
      else if isHovered s then hover_filter r perf else [Lit ''none''])"
  by (simp_all add: applyHoverEffects_def)

lemma effects_transform:
  "st_transform (style (run_effects r perf reduce e s)) =
     (if attached s \<and> isActive s then active_transform r
      else st_transform (style (hover_focus r perf reduce (gpuEffect r perf s))))"
  by (simp add: run_effects_def hover_focus_def Let_def active_style)

lemma effects_transition:
  "st_transition (style (run_effects r perf reduce e s)) =
     (if attached s \<and> isActive s then active_transition r
      else st_transition (style (hover_focus r perf reduce (gpuEffect r perf s))))"
  by (simp add: run_effects_def hover_focus_def Let_def active_style)

lemma effects_filter:
  "st_filter (style (run_effects r perf reduce e s)) =
     (if \<not> attached s \<or> reduce then st_filter (style s)
      else if isHovered s then hover_filter r perf else [Lit ''none''])"
  by (simp add: run_effects_def Let_def active_style focus_style hover_style)

lemma hover_focus_transform:
  "st_transform (style (hover_focus r perf reduce s)) =
     (if \<not> attached s then st_transform (style s)
      else if isFocused s then [Lit ''scale('', interp_num (f_scale (focusP r)), Lit '')'']
      else if reduce then st_transform (style s)
      else if isHovered s then hover_transform r perf
      else if gpu r then [Lit ''translateZ(0)''] else [])"
  by (simp add: hover_focus_def focus_style hover_style)

lemma hover_focus_transition:
  "st_transition (style (hover_focus r perf reduce s)) =
     (if \<not> attached s then st_transition (style s)
      else if isFocused s then [Lit ''all '', interp_num (f_duration (focusP r)), Lit ''ms ease-out'']
      else if \<not> reduce \<and> isHovered s
        then [Lit ''all '', Val (adjustedDuration r perf reduce), Lit ''ms '',
              interp_str (h_easing (hoverP r))]
      else st_transition (style s))"
  by (simp add: hover_focus_def focus_style hover_style)

lemmas cleanups_keep [simp] =
  untouched_run_cleanups [THEN untouchedD(1)] untouched_run_cleanups [THEN untouchedD(2)]
  untouched_run_cleanups [THEN untouchedD(3)] untouched_run_cleanups [THEN untouchedD(4)]
  untouched_run_cleanups [THEN untouchedD(5)] untouched_run_cleanups [THEN untouchedD(6)]
  untouched_run_cleanups [THEN untouchedD(7)] untouched_run_cleanups [THEN untouchedD(8)]
  untouched_run_cleanups [THEN untouchedD(9)]

text \<open>The listeners a render leaves registered capture the parameters of that render.\<close>

lemma render_listeners:
  "magnetic_listener (render e s) =
     (if attached s \<and> truthy_num (m_strength (magneticP (resolve (props s))))
      then Some (magneticP (resolve (props s))) else None)"
  "tilt_listener (render e s) =
     (if attached s \<and> truthy_num (t_maxTilt (tiltP (resolve (props s))))
      then Some (tiltP (resolve (props s))) else None)"
  by (simp_all add: render_def run_effects_def Let_def magneticEffect_def tiltEffect_def)

text \<open>The transform, filter and transition a render leaves on the element.\<close>

lemma render_transform:
  "st_transform (style (render e s)) =
     (let r = resolve (props s);
          perf = effectivePerformance (performance r) e;
          reduce = shouldReduceMotion (prefersReducedMotion r) e
      in if \<not> attached s then st_transform (style s)
         else if isActive s then active_transform r
         else if isFocused s then [Lit ''scale('', interp_num (f_scale (focusP r)), Lit '')'']
         else if reduce then st_transform (style s)
         else if isHovered s then hover_transform r perf
         else if gpu r then [Lit ''translateZ(0)''] else [])"
  by (simp add: render_def Let_def effects_transform hover_focus_transform cleanups_style)

lemma render_filter:
  "st_filter (style (render e s)) =
     (let r = resolve (props s);
          perf = effectivePerformance (performance r) e;
          reduce = shouldReduceMotion (prefersReducedMotion r) e
      in if \<not> attached s \<or> reduce then st_filter (style s)
         else if isHovered s then hover_filter r perf else [Lit ''none''])"
  by (simp add: render_def Let_def effects_filter cleanups_style)

lemma render_transition:
  "st_transition (style (render e s)) =
     (let r = resolve (props s);
          perf = effectivePerformance (performance r) e;
          reduce = shouldReduceMotion (prefersReducedMotion r) e
      in if \<not> attached s then st_transition (style s)
         else if isActive s then active_transition r
         else if isFocused s
           then [Lit ''all '', interp_num (f_duration (focusP r)), Lit ''ms ease-out'']
         else if \<not> reduce \<and> isHovered s
           then [Lit ''all '', Val (adjustedDuration r perf reduce), Lit ''ms '',
                 interp_str (h_easing (hoverP r))]
         else st_transition (style s))"
  by (simp add: render_def Let_def effects_transition hover_focus_transition cleanups_style)

lemma init_state_fields [simp]:
  "props (init_state opts att st0 ks) = opts"
  "isHovered (init_state opts att st0 ks) = False"
  "isFocused (init_state opts att st0 ks) = False"
  "isActive (init_state opts att st0 ks) = False"
  "isLoading (init_state opts att st0 ks) = False"
  "attached (init_state opts att st0 ks) = att"
  "style (init_state opts att st0 ks) = st0"
  "animations (init_state opts att st0 ks) = []"
  "next_handle (init_state opts att st0 ks) = 0"
  "loading_cleanup (init_state opts att st0 ks) = None"
  "ripples (init_state opts att st0 ks) = []"
  "timers (init_state opts att st0 ks) = []"
  "keyframes_style (init_state opts att st0 ks) = ks"
  by (simp_all add: init_state_def)

section \<open>Parameter resolution\<close>

lemma dflt_simps [simp]: "dflt d None = d" "dflt d (Some v) = v"
  by (simp_all add: dflt_def)

lemma spread_simps [simp]:
  "spread d Absent = Some d" "spread d Undef = None" "spread d (Given v) = Some v"
  "spread d (present x) = x"
  by (simp_all add: spread_def present_def split: option.splits)

lemma coercion_simps [simp]:
  "to_number None = NaN" "to_number (Some v) = v"
  "truthy_num None = False" "truthy_num (Some v) = truthy v"
  "truthy_text None = False" "truthy_text (Some t) = (t \<noteq> [])"
  "truthy_bool None = False" "truthy_bool (Some b) = b"
  "property_key None = ''undefined''" "property_key (Some t) = t"
  "interp_num None = Lit ''undefined''" "interp_num (Some v) = Val v"
  "interp_str None = Lit ''undefined''" "interp_str (Some t) = Lit t"
  by (simp_all add: to_number_def truthy_num_def truthy_text_def truthy_bool_def
      property_key_def interp_num_def interp_str_def truthy_str_def)

lemmas defaults_defs =
  hoverDefaults_def focusDefaults_def activeDefaults_def loadingDefaults_def
  magneticDefaults_def rippleDefaults_def tiltDefaults_def


lemmas empty_defs =
  empty_hover_def empty_focus_def empty_active_def empty_loading_def
  empty_magnetic_def empty_ripple_def empty_tilt_def


lemma resolve_empty:
  "resolve empty_options = \<lparr>
     gpu = True, performance = ''auto'', prefersReducedMotion = False,
     hoverP = \<lparr>h_scale = Some (Fin 1.02), h_rotate = Some (Fin 0),
       h_translateY = Some (Fin (- 2)), h_brightness = Some (Fin 1.1),
       h_saturate = Some (Fin 1.1), h_blur = Some (Fin 0), h_duration = Some (Fin 200),
       h_easing = Some ''cubic-bezier(0.4, 0, 0.2, 1)''\<rparr>,
     focusP = \<lparr>f_scale = Some (Fin 1.02), f_glow = Some True,
       f_glowColor = Some ''#3B82F6'', f_borderScale = Some (Fin 1.1),
       f_duration = Some (Fin 200)\<rparr>,
     activeP = \<lparr>a_scale = Some (Fin 0.95), a_rotate = Some (Fin 0),
       a_duration = Some (Fin 100), a_feedback = Some ''visual''\<rparr>,
     loadingP = \<lparr>l_animation = Some ''spin'', l_duration = Some (Fin 1000)\<rparr>,
     magneticP = \<lparr>m_strength = Some (Fin 0.5), m_distance = Some (Fin 100)\<rparr>,
     rippleP = \<lparr>r_color = Some ''rgba(255, 255, 255, 0.6)'', r_duration = Some (Fin 600),
       r_scale = Some (Fin 2)\<rparr>,
     tiltP = \<lparr>t_maxTilt = Some (Fin 10), t_scale = Some (Fin 1.02),
       t_speed = Some (Fin 400)\<rparr>\<rparr>"
  by (simp add: resolve_def empty_options_def defaults_defs empty_defs)

lemma spread_None_iff [simp]: "(spread d p = None) = (p = Undef)"
  by (simp add: spread_def split: property.splits)

lemma spread_cases:
  "spread d p = (case p of Absent \<Rightarrow> Some d | Undef \<Rightarrow> None | Given v \<Rightarrow> Some v)"
  by (simp add: spread_def)


lemma plain_settings:
  "effectivePerformance ''auto'' plain_env = ''balanced''"
  "\<not> shouldReduceMotion False plain_env"
  by (simp_all add: effectivePerformance_def shouldReduceMotion_def plain_env_def
      js_or_num_def js_or_str_def)








section \<open>The capability classifier\<close>

lemma js_or_num_falsy:
  "js_or_num x d =
     dflt d (case x of None \<Rightarrow> None | Some v \<Rightarrow> if truthy v then Some v else None)"
  by (simp add: js_or_num_def split: option.splits)

lemma js_or_str_falsy:
  "js_or_str x d =
     dflt d (case x of None \<Rightarrow> None | Some v \<Rightarrow> if truthy_str v then Some v else None)"
  by (simp add: js_or_str_def split: option.splits)

lemma effectivePerformance_explicit:
  "mode \<noteq> ''auto'' \<Longrightarrow> effectivePerformance mode e = mode"
  by (simp add: effectivePerformance_def)

text \<open>
  C4, as stated, fails: a snapshot that reports 0 GB of memory (a present field, below
  2 GB) is classified as if the field were missing.
\<close>

theorem effectivePerformance_zero_memory:
  "effectivePerformance ''auto'' (plain_env\<lparr>deviceMemory := Some (Fin 0)\<rparr>) = ''balanced''
   \<and> classify_spec ''auto'' (plain_env\<lparr>deviceMemory := Some (Fin 0)\<rparr>) = ''economy''"
  by (simp add: effectivePerformance_def classify_spec_def plain_env_def js_or_num_def
      js_or_str_def)

text \<open>
  C4, amended. The classifier is the specification's classifier on the snapshot in which
  a falsy field (0, NaN, the empty string) counts as missing: explicit modes pass
  through, and in mode auto the thresholds are applied after a missing or falsy field
  has taken its default (4, 4, 4g).
\<close>

theorem effectivePerformance_classify:
  "effectivePerformance mode e = classify_spec mode (falsy_as_missing e)"
  by (simp add: effectivePerformance_def classify_spec_def falsy_as_missing_def
      js_or_num_falsy js_or_str_falsy)

section \<open>The magnetic effect at the centre\<close>

lemma magnetic_at_centre:
  assumes "magnetic_delta rc ev = (Fin 0, Fin 0)"
  shows "magnetic_distance rc ev = Fin 0" and "magnetic_translate mp rc ev = (NaN, NaN)"
  using assms by (simp_all add: magnetic_distance_def magnetic_translate_def)

text \<open>
  C1. With the default parameters and the pointer on the centre of a 100 by 100 box, the
  distance is 0, it is below the threshold 100, and the displacement written to the
  transform is \<open>NaN\<close> on both axes.
\<close>

theorem magnetic_centre_is_NaN:
  "magnetic_distance box100 (at_point 50 50) = Fin 0
   \<and> magnetic_translate (magneticP (resolve empty_options)) box100 (at_point 50 50) = (NaN, NaN)
   \<and> st_transform (style (step plain_env (mount plain_env empty_options True blank_style None)
        (DocumentMouseMove box100 (at_point 50 50)))) =
      [Lit ''translate('', Val NaN, Lit ''px, '', Val NaN, Lit ''px)'']"
proof -
  have d: "magnetic_delta box100 (at_point 50 50) = (Fin 0, Fin 0)"
    by (simp add: magnetic_delta_def box100_def at_point_def js_sub_def)
  have l: "magnetic_listener (mount plain_env empty_options True blank_style None)
     = Some (magneticP (resolve empty_options))"
    by (simp add: mount_def render_listeners resolve_empty)
  show ?thesis
    by (simp add: step_def l magnetic_handleMouseMove_def magnetic_at_centre [OF d]
        resolve_empty)
qed

section \<open>Unrecognised tiers and animation names\<close>

lemma keyframes_unrecognised:
  assumes "name \<noteq> ''spin''" and "name \<noteq> ''pulse''" and "name \<noteq> ''bounce''"
    and "name \<noteq> ''dots''"
  shows "keyframes name = (if name \<in> set object_prototype_names then Inherited else Undefined)"
  using assms by (simp add: keyframes_def)

text \<open>
  C8, as stated, fails for the animation name: the name \<open>wiggle\<close> is in no case of the
  table, the lookup is \<open>undefined\<close>, and the animation the loading effect starts has
  that in place of a keyframe set; no default animation stands in.
\<close>

theorem unrecognised_animation_undefined:
  "keyframes ''wiggle'' = Undefined
   \<and> map snd (animations (loadingEffect
        (resolve (empty_options\<lparr>o_loading := Some \<lparr>lc_animation = Given ''wiggle'',
           lc_duration = Absent\<rparr>\<rparr>))
        ((init_state empty_options True blank_style None)\<lparr>isLoading := True\<rparr>))) =
      [\<lparr>an_keyframes = Undefined, an_duration = Some (Fin 1000), an_iterations = PInf,
        an_easing = ''ease-in-out''\<rparr>]"
  by (simp add: keyframes_def object_prototype_names_def loadingEffect_def
      loading_animation_def resolve_def loadingDefaults_def empty_options_def Let_def)

text \<open>
  C8, amended. An unrecognised performance tier falls back to the default case of the
  switch, effect scale 0.8, and \<open>getEffectScale\<close> has a value for every tier. An
  unrecognised animation name has no default case: the table yields no keyframe set
  (\<open>undefined\<close>, or a member inherited from \<open>Object.prototype\<close>), and the loading
  effect starts exactly one animation with that value.
\<close>

theorem unrecognised_tier_and_animation:
  "(perf \<noteq> ''economy'' \<and> perf \<noteq> ''balanced'' \<and> perf \<noteq> ''high''
      \<longrightarrow> getEffectScale perf = Fin 0.8)
   \<and> getEffectScale perf \<in> {Fin 0.5, Fin 0.8, Fin 1.0}
   \<and> (name \<noteq> ''spin'' \<and> name \<noteq> ''pulse'' \<and> name \<noteq> ''bounce'' \<and> name \<noteq> ''dots''
      \<longrightarrow> keyframes name =
            (if name \<in> set object_prototype_names then Inherited else Undefined)
        \<and> (\<forall>ks. keyframes name \<noteq> Keyframes ks))
   \<and> (attached s \<and> isLoading s
      \<longrightarrow> animations (loadingEffect r s) =
            animations s @ [(next_handle s,
              \<lparr>an_keyframes = keyframes (property_key (l_animation (loadingP r))),
               an_duration = l_duration (loadingP r), an_iterations = PInf,
               an_easing = ''ease-in-out''\<rparr>)])"
  by (simp add: getEffectScale_def keyframes_unrecognised loadingEffect_def
      loading_animation_def Let_def)

theorem unrecognised_tier_and_animation_witness:
  "getEffectScale ''turbo'' = Fin 0.8
   \<and> keyframes ''toString'' = Inherited
   \<and> animations (loadingEffect (resolve empty_options)
        ((init_state empty_options True blank_style None)\<lparr>isLoading := True\<rparr>)) =
      [(0, \<lparr>an_keyframes = keyframes ''spin'', an_duration = Some (Fin 1000),
        an_iterations = PInf,
        an_easing = ''ease-in-out''\<rparr>)]"
  using unrecognised_tier_and_animation [of "''turbo''" "''toString''"
      "(init_state empty_options True blank_style None)\<lparr>isLoading := True\<rparr>"
      "resolve empty_options"]
  by (simp add: object_prototype_names_def resolve_empty)

section \<open>The loading animation\<close>

lemma same_animations_refl [simp]: "same_animations s s"
  by (simp add: same_animations_def)

lemma same_animations_effects [simp]:
  "same_animations s (gpuCleanup g s)"
  "same_animations s (magneticCleanup s)"
  "same_animations s (tiltCleanup s)"
  "same_animations s (setupGPUOptimization r perf s)"
  "same_animations s (gpuEffectCleanup r perf s)"
  "same_animations s (gpuEffect r perf s)"
  "same_animations s (applyHoverEffects r perf reduce s)"
  "same_animations s (focusEffect r s)"
  "same_animations s (activeEffect r e s)"
  "same_animations s (magneticEffect r s)"
  "same_animations s (tiltEffect r s)"
  by (simp_all add: same_animations_def gpuCleanup_def magneticCleanup_def tiltCleanup_def
      setupGPUOptimization_def gpuEffectCleanup_def gpuEffect_def applyHoverEffects_def
      focusEffect_def activeEffect_def magneticEffect_def tiltEffect_def Let_def
      split: option.splits)

lemma same_animationsD:
  assumes "same_animations s t"
  shows "animations t = animations s" and "loading_cleanup t = loading_cleanup s"
    and "next_handle t = next_handle s"
  using assms by (simp_all add: same_animations_def)

lemmas animations_keep [simp] =
  same_animations_effects [THEN same_animationsD(1)]
  same_animations_effects [THEN same_animationsD(2)]
  same_animations_effects [THEN same_animationsD(3)]

lemma loading_inv_alt:
  "loading_inv s \<longleftrightarrow>
     (if attached s \<and> isLoading s
      then \<exists>h. loading_cleanup s = Some h
             \<and> animations s = [(h, loading_animation (resolve (props s)))]
      else loading_cleanup s = None \<and> animations s = [])"
  by (auto simp add: loading_inv_def split: option.splits)

lemma loadingCleanup_inv:
  assumes "loading_inv s"
  shows "animations (loadingCleanup s) = []" and "loading_cleanup (loadingCleanup s) = None"
  using assms by (auto simp add: loading_inv_def loadingCleanup_def split: option.splits)

lemma cleanups_animations:
  assumes "loading_inv s"
  shows "animations (run_cleanups r perf s) = []"
    and "loading_cleanup (run_cleanups r perf s) = None"
  using assms
  by (auto simp add: run_cleanups_def loadingCleanup_def loading_inv_def split: option.splits)

lemma effects_animations:
  "animations (run_effects r perf reduce e s) =
     (if attached s \<and> isLoading s
      then animations s @ [(next_handle s, loading_animation r)]
      else animations s)"
  "loading_cleanup (run_effects r perf reduce e s) =
     (if attached s \<and> isLoading s then Some (next_handle s) else None)"
  "next_handle (run_effects r perf reduce e s) =
     (if attached s \<and> isLoading s then Suc (next_handle s) else next_handle s)"
  by (simp_all add: run_effects_def Let_def loadingEffect_def magneticEffect_def
      tiltEffect_def)

lemma cleanups_next_handle [simp]:
  "next_handle (run_cleanups r perf s) = next_handle s"
  by (simp add: run_cleanups_def loadingCleanup_def magneticCleanup_def tiltCleanup_def
      split: option.splits)

lemmas run_effects_keep =
  untouched_run_effects [THEN untouchedD(1)] untouched_run_effects [THEN untouchedD(2)]
  untouched_run_effects [THEN untouchedD(3)] untouched_run_effects [THEN untouchedD(4)]
  untouched_run_effects [THEN untouchedD(5)] untouched_run_effects [THEN untouchedD(6)]
  untouched_run_effects [THEN untouchedD(7)] untouched_run_effects [THEN untouchedD(8)]
  untouched_run_effects [THEN untouchedD(9)]

lemma loading_inv_render:
  assumes "loading_inv s"
  shows "loading_inv (render e s)"
proof -
  define r where "r = resolve (props s)"
  define perf where "perf = effectivePerformance (performance r) e"
  define reduce where "reduce = shouldReduceMotion (prefersReducedMotion r) e"
  define c where "c = run_cleanups r perf s"
  have c: "animations c = []" "loading_cleanup c = None" "props c = props s"
    "attached c = attached s" "isLoading c = isLoading s"
    using assms by (simp_all add: c_def cleanups_animations)
  have "render e s = run_effects r perf reduce e c"
    by (simp add: render_def Let_def r_def perf_def reduce_def c_def)
  moreover have "loading_inv (run_effects r perf reduce e c)"
    by (simp add: loading_inv_alt effects_animations run_effects_keep c r_def)
  ultimately show ?thesis by simp
qed

lemma loading_inv_frame:
  assumes "loading_inv s" and "untouched s t" and "same_animations s t"
  shows "loading_inv t"
  using assms by (simp add: loading_inv_alt untouched_def same_animations_def)

lemma loading_inv_mount: "loading_inv (mount e opts att st0 ks)"
proof -
  have "loading_inv (init_state opts att st0 ks)"
    by (simp add: loading_inv_alt)
  then show ?thesis
    by (simp add: mount_def loading_inv_render)
qed

lemma loading_inv_set:
  assumes "loading_inv s"
  shows "loading_inv (setIsHovered e b s)" and "loading_inv (setIsFocused e b s)"
    and "loading_inv (setIsActive e b s)"
proof -
  have "loading_inv (s\<lparr>isHovered := b\<rparr>)" "loading_inv (s\<lparr>isFocused := b\<rparr>)"
    "loading_inv (s\<lparr>isActive := b\<rparr>)"
    using assms by (simp_all add: loading_inv_alt)
  then show "loading_inv (setIsHovered e b s)" and "loading_inv (setIsFocused e b s)"
    and "loading_inv (setIsActive e b s)"
    using assms
    by (simp_all add: setIsHovered_def setIsFocused_def setIsActive_def loading_inv_render)
qed

text \<open>
  A render that follows a change of \<^verbatim>\<open>isLoading\<close> or of the options cancels the
  animation of the previous render before the loading effect runs again, whatever that
  animation was.
\<close>

lemma loading_inv_render_changed:
  assumes "loading_inv s"
    and "props t = opts" and "isLoading t = b" and "attached t = attached s"
    and "animations t = animations s" and "loading_cleanup t = loading_cleanup s"
  shows "loading_inv (render e t)"
proof -
  define r where "r = resolve (props t)"
  define perf where "perf = effectivePerformance (performance r) e"
  define reduce where "reduce = shouldReduceMotion (prefersReducedMotion r) e"
  define c where "c = run_cleanups r perf t"
  have "animations (loadingCleanup (gpuEffectCleanup r perf t)) = []"
    "loading_cleanup (loadingCleanup (gpuEffectCleanup r perf t)) = None"
    using assms
    by (auto simp add: loadingCleanup_def loading_inv_def split: option.splits)
  then have c: "animations c = []" "loading_cleanup c = None" "props c = props t"
    "attached c = attached t" "isLoading c = isLoading t"
    by (simp_all add: c_def run_cleanups_def)
  have "render e t = run_effects r perf reduce e c"
    by (simp add: render_def Let_def r_def perf_def reduce_def c_def)
  moreover have "loading_inv (run_effects r perf reduce e c)"
    by (simp add: loading_inv_alt effects_animations run_effects_keep c r_def)
  ultimately show ?thesis by simp
qed

lemma render_loading:
  assumes "loading_inv s"
    and "attached t = attached s" and "animations t = animations s"
    and "loading_cleanup t = loading_cleanup s"
  shows "animations (render e t) =
           (if attached t \<and> isLoading t
            then [(next_handle t, loading_animation (resolve (props t)))] else [])"
    and "next_handle (render e t) =
           (if attached t \<and> isLoading t then Suc (next_handle t) else next_handle t)"
proof -
  define r where "r = resolve (props t)"
  define perf where "perf = effectivePerformance (performance r) e"
  define reduce where "reduce = shouldReduceMotion (prefersReducedMotion r) e"
  define c where "c = run_cleanups r perf t"
  have "animations (loadingCleanup (gpuEffectCleanup r perf t)) = []"
    using assms
    by (auto simp add: loadingCleanup_def loading_inv_def split: option.splits)
  then have c: "animations c = []" "next_handle c = next_handle t"
    "attached c = attached t" "isLoading c = isLoading t"
    by (simp_all add: c_def) (simp add: run_cleanups_def)
  have "render e t = run_effects r perf reduce e c"
    by (simp add: render_def Let_def r_def perf_def reduce_def c_def)
  then show "animations (render e t) =
           (if attached t \<and> isLoading t
            then [(next_handle t, loading_animation (resolve (props t)))] else [])"
    and "next_handle (render e t) =
           (if attached t \<and> isLoading t then Suc (next_handle t) else next_handle t)"
    by (simp_all add: effects_animations c r_def)
qed

lemma loading_inv_step:
  assumes "loading_inv s"
  shows "loading_inv (step e s ev)"
proof (cases ev)
  case (OnClick rc m)
  then show ?thesis
    using assms
    by (simp add: step_def handleClick_def createRipple_def Let_def loading_inv_alt)
next
  case (SetIsLoading b)
  then show ?thesis
    using assms loading_inv_render_changed [OF assms, of "s\<lparr>isLoading := b\<rparr>" "props s" b e]
    by (simp add: step_def setIsLoading_def)
next
  case (Rerender opts)
  then show ?thesis
    using loading_inv_render_changed [OF assms, of "s\<lparr>props := opts\<rparr>" opts "isLoading s" e]
    by (simp add: step_def)
next
  case (DocumentMouseMove rc m)
  then show ?thesis
    using assms
    by (simp add: step_def magnetic_handleMouseMove_def loading_inv_alt
        split: option.splits prod.splits)
next
  case (ElementMouseMove rc m)
  then show ?thesis
    using assms
    by (simp add: step_def tilt_handleMouseMove_def Let_def loading_inv_alt
        split: option.splits)
next
  case ElementMouseLeave
  then show ?thesis
    using assms
    by (simp add: step_def magnetic_handleMouseLeave_def tilt_handleMouseLeave_def Let_def
        loading_inv_alt split: option.splits)
next
  case (Timeout h)
  then show ?thesis
    using assms by (simp add: step_def timeout_fires_def loading_inv_alt)
qed (use assms in \<open>simp_all add: step_def loading_inv_set\<close>)

lemma loading_inv_run:
  assumes "loading_inv s"
  shows "loading_inv (run e s evs)"
  using assms by (induction evs arbitrary: s) (simp_all add: loading_inv_step)

lemma loading_inv_length:
  assumes "loading_inv s"
  shows "length (animations s) \<le> 1"
  using assms by (auto simp add: loading_inv_def split: option.splits)

lemma unmount_animations:
  assumes "loading_inv s"
  shows "animations (unmount s) = []"
  using assms
  by (auto simp add: unmount_def loadingCleanup_def loading_inv_def Let_def
      split: option.splits)

text \<open>
  C3. In every state a mounted hook reaches, at most one loading animation is running:
  the one started by the latest render, present exactly when the element is bound and
  \<^verbatim>\<open>isLoading\<close> is set. The cleanups that precede the effects of the next render,
  and those of unmounting, leave none running, so the previous handle is cancelled
  before a new one is created.
\<close>

theorem one_loading_animation:
  "loading_inv (run e (mount e opts att st0 ks) evs)
   \<and> length (animations (run e (mount e opts att st0 ks) evs)) \<le> 1
   \<and> animations (run_cleanups r perf (run e (mount e opts att st0 ks) evs)) = []
   \<and> animations (unmount (run e (mount e opts att st0 ks) evs)) = []"
proof -
  have inv: "loading_inv (run e (mount e opts att st0 ks) evs)"
    by (rule loading_inv_run [OF loading_inv_mount])
  show ?thesis
    using inv loading_inv_length [OF inv] cleanups_animations(1) [OF inv]
      unmount_animations [OF inv]
    by blast
qed

lemma loading_restart_example:
  "animations (run plain_env (mount plain_env empty_options True blank_style None)
     [SetIsLoading True,
      Rerender (empty_options\<lparr>o_loading := Some \<lparr>lc_animation = Given ''pulse'',
         lc_duration = Given (Fin 500)\<rparr>\<rparr>)]) =
   [(1, \<lparr>an_keyframes = keyframes ''pulse'', an_duration = Some (Fin 500), an_iterations = PInf,
      an_easing = ''ease-in-out''\<rparr>)]"
proof -
  define s0 where "s0 = mount plain_env empty_options True blank_style None"
  define s1 where "s1 = step plain_env s0 (SetIsLoading True)"
  define opts where "opts = empty_options\<lparr>o_loading := Some \<lparr>lc_animation = Given ''pulse'',
         lc_duration = Given (Fin 500)\<rparr>\<rparr>"
  have i0: "loading_inv (init_state empty_options True blank_style None)"
    by (simp add: loading_inv_alt)
  have s0: "loading_inv s0" "next_handle s0 = 0" "attached s0" "\<not> isLoading s0"
    by (simp_all add: s0_def loading_inv_mount)
      (simp_all add: mount_def render_loading(2) [OF i0] render_keep)
  have s1: "s1 = render plain_env (s0\<lparr>isLoading := True\<rparr>)"
    using s0 by (simp add: s1_def step_def setIsLoading_def)
  have i1: "loading_inv s1"
    by (simp add: s1_def loading_inv_step s0)
  have n1: "next_handle s1 = 1" "attached s1" "isLoading s1"
    using s0 by (simp_all add: s1 render_loading(2) [OF s0(1)] render_keep)
  have a: "animations (render plain_env (s1\<lparr>props := opts\<rparr>)) =
     [(1, loading_animation (resolve opts))]"
    using n1 by (simp add: render_loading(1) [OF i1])
  have b: "loading_animation (resolve opts) =
     \<lparr>an_keyframes = keyframes ''pulse'', an_duration = Some (Fin 500), an_iterations = PInf,
      an_easing = ''ease-in-out''\<rparr>"
    by (simp add: opts_def loading_animation_def resolve_def loadingDefaults_def
        empty_options_def)
  have c: "run plain_env s0 [SetIsLoading True, Rerender opts] =
     render plain_env (s1\<lparr>props := opts\<rparr>)"
    by (simp add: s1_def step_def)
  show ?thesis
    using a b c unfolding s0_def opts_def by simp
qed

lemma render_animations:
  "animations (render e s) =
     (if attached s \<and> isLoading s
      then animations (loadingCleanup s) @
           [(next_handle s, loading_animation (resolve (props s)))]
      else animations (loadingCleanup s))"
proof -
  define r where "r = resolve (props s)"
  define perf where "perf = effectivePerformance (performance r) e"
  define reduce where "reduce = shouldReduceMotion (prefersReducedMotion r) e"
  define c where "c = run_cleanups r perf s"
  have "animations c = animations (loadingCleanup (gpuEffectCleanup r perf s))"
    by (simp add: c_def run_cleanups_def)
  also have "\<dots> = animations (loadingCleanup s)"
    by (simp add: loadingCleanup_def split: option.splits)
  finally have c: "animations c = animations (loadingCleanup s)"
    "next_handle c = next_handle s" "attached c = attached s" "isLoading c = isLoading s"
    by (simp_all add: c_def)
  have "render e s = run_effects r perf reduce e c"
    by (simp add: render_def Let_def r_def perf_def reduce_def c_def)
  then show ?thesis
    by (simp add: effects_animations c r_def)
qed

section \<open>Reduced motion\<close>

text \<open>
  C2. With the reduced-motion option set, focusing the element writes the configured
  focus duration (200 by default) into the transition, not the minimal duration 1: the
  flag is read by the hover effect alone.
\<close>

theorem focus_duration_under_reduced_motion:
  "shouldReduceMotion
     (prefersReducedMotion (resolve (empty_options\<lparr>o_prefersReducedMotion := Some True\<rparr>)))
     plain_env
   \<and> st_transition (style (step plain_env
        (mount plain_env (empty_options\<lparr>o_prefersReducedMotion := Some True\<rparr>) True
           blank_style None) OnFocus)) =
      [Lit ''all '', Val (Fin 200), Lit ''ms ease-out'']"
  by (simp add: step_def setIsFocused_def mount_def render_transition render_keep Let_def
      shouldReduceMotion_def resolve_def empty_options_def focusDefaults_def empty_focus_def)

text \<open>
  What the other effect families do does not depend on the flag: the focus and active
  effects write their configured durations into the transition, the loading animation
  runs at its configured duration, the tilt listener writes its configured speed, and a
  ripple's timer takes the configured ripple duration.
\<close>

lemma other_durations_under_reduced_motion:
  assumes "shouldReduceMotion (prefersReducedMotion (resolve (props s))) e"
  shows "st_transition (style (render e s)) =
        (if attached s \<and> isActive s
           then [Lit ''all '', interp_num (a_duration (activeP (resolve (props s)))),
                 Lit ''ms ease-out'']
         else if attached s \<and> isFocused s
           then [Lit ''all '', interp_num (f_duration (focusP (resolve (props s)))),
                 Lit ''ms ease-out'']
         else st_transition (style s))"
    and "map (an_duration \<circ> snd) (animations (render e s)) =
        map (an_duration \<circ> snd) (animations (loadingCleanup s)) @
        (if attached s \<and> isLoading s then [l_duration (loadingP (resolve (props s)))]
         else [])"
    and "st_transition (style (tilt_handleMouseMove tp rc m s)) =
        [Lit ''transform '', interp_num (t_speed tp), Lit ''ms ease-out'']"
    and "timers (handleClick rc m s) =
        timers s @
        (if attached s \<and> truthy_text (r_color (rippleP (resolve (props s))))
         then [(next_handle s, r_duration (rippleP (resolve (props s))))] else [])"
proof -
  show "st_transition (style (render e s)) =
        (if attached s \<and> isActive s
           then [Lit ''all '', interp_num (a_duration (activeP (resolve (props s)))),
                 Lit ''ms ease-out'']
         else if attached s \<and> isFocused s
           then [Lit ''all '', interp_num (f_duration (focusP (resolve (props s)))),
                 Lit ''ms ease-out'']
         else st_transition (style s))"
    using assms by (simp add: render_transition Let_def active_transition_def)
  show "map (an_duration \<circ> snd) (animations (render e s)) =
        map (an_duration \<circ> snd) (animations (loadingCleanup s)) @
        (if attached s \<and> isLoading s then [l_duration (loadingP (resolve (props s)))]
         else [])"
    by (simp add: render_animations loading_animation_def)
  show "st_transition (style (tilt_handleMouseMove tp rc m s)) =
        [Lit ''transform '', interp_num (t_speed tp), Lit ''ms ease-out'']"
    by (simp add: tilt_handleMouseMove_def Let_def)
  show "timers (handleClick rc m s) =
        timers s @
        (if attached s \<and> truthy_text (r_color (rippleP (resolve (props s))))
         then [(next_handle s, r_duration (rippleP (resolve (props s))))] else [])"
    by (simp add: handleClick_def createRipple_def Let_def)
qed

text \<open>
  Under the flag the hover effect returns before it writes anything, so a render of an
  element that is neither focused nor pressed leaves the transform, the filter and the
  transition as they were, hovered or not; the value 1 of its duration expression is
  reached on no path that writes.
\<close>

lemma reduced_motion_skips_hover:
  assumes "shouldReduceMotion (prefersReducedMotion (resolve (props s))) e"
  shows "applyHoverEffects (resolve (props s)) perf
        (shouldReduceMotion (prefersReducedMotion (resolve (props s))) e) s = s"
    and "adjustedDuration (resolve (props s)) perf
        (shouldReduceMotion (prefersReducedMotion (resolve (props s))) e) = Fin 1"
    and "st_filter (style (render e s)) = st_filter (style s)"
    and "\<not> isFocused s \<and> \<not> isActive s \<Longrightarrow>
          st_transform (style (render e s)) = st_transform (style s)
          \<and> st_transition (style (render e s)) = st_transition (style s)"
  using assms
  by (simp_all add: applyHoverEffects_def adjustedDuration_def render_filter render_transform
      render_transition Let_def)

section \<open>Ripples\<close>

lemma handleClick_frame [simp]:
  "props (handleClick rc m s) = props s"
  "attached (handleClick rc m s) = attached s"
  "style (handleClick rc m s) = style s"
  "animations (handleClick rc m s) = animations s"
  by (simp_all add: handleClick_def createRipple_def Let_def)

lemma handleClick_ripples:
  "ripples (handleClick rc m s) =
     ripples s @
     (if attached s \<and> truthy_text (r_color (rippleP (resolve (props s))))
      then [(next_handle s,
             ripple_cssText (r_color (rippleP (resolve (props s))))
               (r_duration (rippleP (resolve (props s))))
               (ripple_x rc m) (ripple_y rc m) (ripple_size rc))]
      else [])"
  "timers (handleClick rc m s) =
     timers s @
     (if attached s \<and> truthy_text (r_color (rippleP (resolve (props s))))
      then [(next_handle s, r_duration (rippleP (resolve (props s))))] else [])"
  "next_handle (handleClick rc m s) =
     (if attached s \<and> truthy_text (r_color (rippleP (resolve (props s))))
      then Suc (next_handle s) else next_handle s)"
  "keyframes_style (handleClick rc m s) =
     (if attached s \<and> truthy_text (r_color (rippleP (resolve (props s))))
      then Some (case keyframes_style s of
                   None \<Rightarrow> ripple_keyframes_text (r_scale (rippleP (resolve (props s))))
                 | Some t \<Rightarrow> t)
      else keyframes_style s)"
  by (simp_all add: handleClick_def createRipple_def Let_def split: option.splits)

text \<open>
  C10. With an empty resolved ripple colour a click changes nothing: no ripple, no timer,
  no keyframes style, whatever the ripple duration and scale. A click adds a ripple
  exactly when the colour is not empty and an element is bound.
\<close>

theorem click_with_empty_color:
  "(r_color (rippleP (resolve (props s))) = Some [] \<longrightarrow> step e s (OnClick rc m) = s)
   \<and> ripples (step e s (OnClick rc m)) =
       ripples s @
       (if attached s \<and> truthy_text (r_color (rippleP (resolve (props s))))
        then [(next_handle s,
               ripple_cssText (r_color (rippleP (resolve (props s))))
                 (r_duration (rippleP (resolve (props s))))
                 (ripple_x rc m) (ripple_y rc m) (ripple_size rc))]
        else [])"
proof -
  have "r_color (rippleP (resolve (props s))) = Some [] \<longrightarrow> step e s (OnClick rc m) = s"
    by (simp add: step_def handleClick_def Let_def)
  then show ?thesis
    by (simp add: step_def handleClick_ripples)
qed

theorem click_with_empty_color_witness:
  "r_color (rippleP (resolve (props
     (mount plain_env
        (empty_options\<lparr>o_ripple := Some \<lparr>rc_color = Given [], rc_duration = Given (Fin 900),
           rc_scale = Given (Fin 5)\<rparr>\<rparr>) True blank_style None)))) = Some []
   \<and> step plain_env
       (mount plain_env
          (empty_options\<lparr>o_ripple := Some \<lparr>rc_color = Given [], rc_duration = Given (Fin 900),
             rc_scale = Given (Fin 5)\<rparr>\<rparr>) True blank_style None)
       (OnClick box100 (at_point 10 20)) =
     mount plain_env
       (empty_options\<lparr>o_ripple := Some \<lparr>rc_color = Given [], rc_duration = Given (Fin 900),
          rc_scale = Given (Fin 5)\<rparr>\<rparr>) True blank_style None"
proof -
  have h: "r_color (rippleP (resolve (props
     (mount plain_env
        (empty_options\<lparr>o_ripple := Some \<lparr>rc_color = Given [], rc_duration = Given (Fin 900),
           rc_scale = Given (Fin 5)\<rparr>\<rparr>) True blank_style None)))) = Some []"
    by (simp add: mount_def render_keep resolve_def rippleDefaults_def empty_options_def)
  show ?thesis
    using h click_with_empty_color [of
        "mount plain_env
          (empty_options\<lparr>o_ripple := Some \<lparr>rc_color = Given [], rc_duration = Given (Fin 900),
             rc_scale = Given (Fin 5)\<rparr>\<rparr>) True blank_style None"
        plain_env box100 "at_point 10 20"]
    by blast
qed

text \<open>
  C7, as stated, fails: with the ripple colour configured as the empty string a click
  spawns no ripple and sets no timer.
\<close>

theorem click_spawns_nothing_without_color:
  "ripples (step plain_env
      (mount plain_env
        (empty_options\<lparr>o_ripple := Some \<lparr>rc_color = Given [], rc_duration = Absent,
           rc_scale = Absent\<rparr>\<rparr>) True blank_style None)
      (OnClick box100 (at_point 30 40))) = []
   \<and> timers (step plain_env
      (mount plain_env
        (empty_options\<lparr>o_ripple := Some \<lparr>rc_color = Given [], rc_duration = Absent,
           rc_scale = Absent\<rparr>\<rparr>) True blank_style None)
      (OnClick box100 (at_point 30 40))) = []"
  by (simp add: step_def handleClick_ripples mount_def render_keep resolve_def
      rippleDefaults_def empty_options_def)

lemma render_next_handle:
  "next_handle (render e s) =
     (if attached s \<and> isLoading s then Suc (next_handle s) else next_handle s)"
  by (simp add: render_def Let_def effects_animations)

lemma handles_below_mono:
  assumes "handles_below s" and "ripples t = ripples s" and "timers t = timers s"
    and "next_handle s \<le> next_handle t"
  shows "handles_below t"
  using assms
  by (auto simp add: handles_below_def list_all_iff)

lemma handles_below_render:
  assumes "handles_below s" and "ripples t = ripples s" and "timers t = timers s"
    and "next_handle t = next_handle s"
  shows "handles_below (render e t)"
  using assms
  by (intro handles_below_mono [OF assms(1)]) (simp_all add: render_keep render_next_handle)

lemma handles_below_step:
  assumes "handles_below s"
  shows "handles_below (step e s ev)"
proof (cases ev)
  case (OnClick rc m)
  then show ?thesis
    using assms
    by (auto simp add: step_def handles_below_def handleClick_ripples list_all_iff)
next
  case (DocumentMouseMove rc m)
  then show ?thesis
    using assms
    by (simp add: step_def magnetic_handleMouseMove_def handles_below_def
        split: option.splits prod.splits)
next
  case (ElementMouseMove rc m)
  then show ?thesis
    using assms
    by (simp add: step_def tilt_handleMouseMove_def Let_def handles_below_def
        split: option.splits)
next
  case ElementMouseLeave
  then show ?thesis
    using assms
    by (simp add: step_def magnetic_handleMouseLeave_def tilt_handleMouseLeave_def Let_def
        handles_below_def split: option.splits)
next
  case (Timeout h)
  then show ?thesis
    using assms by (auto simp add: step_def timeout_fires_def handles_below_def list_all_iff)
qed (use assms in \<open>simp_all add: step_def setIsHovered_def setIsFocused_def setIsActive_def
      setIsLoading_def handles_below_render\<close>)

lemma handles_below_run:
  assumes "handles_below s"
  shows "handles_below (run e s evs)"
  using assms by (induction evs arbitrary: s) (simp_all add: handles_below_step)

lemma handles_below_mount: "handles_below (mount e opts att st0 ks)"
proof -
  have "handles_below (init_state opts att st0 ks)"
    by (simp add: handles_below_def)
  then show ?thesis
    by (simp add: mount_def handles_below_render)
qed

lemma attached_step [simp]: "attached (step e s ev) = attached s"
  by (cases ev)
    (simp_all add: step_def setIsHovered_def setIsFocused_def setIsActive_def
      setIsLoading_def render_keep timeout_fires_def magnetic_handleMouseMove_def
      magnetic_handleMouseLeave_def tilt_handleMouseMove_def tilt_handleMouseLeave_def
      Let_def split: option.splits prod.splits)

lemma attached_run [simp]: "attached (run e s evs) = attached s"
  by (induction evs arbitrary: s) simp_all

lemma attached_mount [simp]: "attached (mount e opts att st0 ks) = att"
  by (simp add: mount_def render_keep)

lemma filter_fresh:
  assumes "list_all (\<lambda>x. fst x < n) xs"
  shows "filter (\<lambda>x. fst x \<noteq> n) xs = xs" and "filter (\<lambda>x. fst x \<noteq> Suc n) xs = xs"
    and "n \<notin> fst ` set xs" and "Suc n \<notin> fst ` set xs"
  using assms by (auto simp add: list_all_iff filter_id_conv)

lemma ripple_geometry:
  "ripple_size \<lparr>rect_left = Fin l, rect_top = Fin t, rect_width = Fin w,
      rect_height = Fin h\<rparr> = Fin (max w h)"
  "ripple_x \<lparr>rect_left = Fin l, rect_top = Fin t, rect_width = Fin w, rect_height = Fin h\<rparr>
      (at_point cx cy) = Fin (cx - l - max w h / 2)"
  "ripple_y \<lparr>rect_left = Fin l, rect_top = Fin t, rect_width = Fin w, rect_height = Fin h\<rparr>
      (at_point cx cy) = Fin (cy - t - max w h / 2)"
  by (simp_all add: ripple_size_def ripple_x_def ripple_y_def at_point_def js_sub_def max_def)

text \<open>
  C7, amended. In every state a hook mounted on an element reaches, a click spawns exactly
  one ripple provided the resolved ripple colour is not empty: its side is the larger of
  the width and height of the element's box, its centre is the click point, and one timer
  with the resolved ripple duration is set to remove it. A second click adds a second
  ripple and timer beside the first, and each timer removes its own ripple only.
\<close>

theorem click_spawns_one_ripple:
  assumes "s = run e (mount e opts True st0 ks) evs"
    and "truthy_text (r_color (rippleP (resolve (props s))))"
  shows
    "let color = r_color (rippleP (resolve (props s)));
         duration = r_duration (rippleP (resolve (props s)));
         n = next_handle s;
         first = (n, ripple_cssText color duration (Fin (cx - l - max w h / 2))
                       (Fin (cy - t - max w h / 2)) (Fin (max w h)));
         second = (Suc n, ripple_cssText color duration (ripple_x rc2 m2) (ripple_y rc2 m2)
                       (ripple_size rc2));
         s1 = step e s (OnClick \<lparr>rect_left = Fin l, rect_top = Fin t, rect_width = Fin w,
                                  rect_height = Fin h\<rparr> (at_point cx cy));
         s2 = step e s1 (OnClick rc2 m2)
     in ripples s1 = ripples s @ [first]
        \<and> timers s1 = timers s @ [(n, duration)]
        \<and> ripples s2 = ripples s @ [first, second]
        \<and> timers s2 = timers s @ [(n, duration), (Suc n, duration)]
        \<and> ripples (step e s2 (Timeout n)) = ripples s @ [second]
        \<and> timers (step e s2 (Timeout n)) = timers s @ [(Suc n, duration)]
        \<and> ripples (step e s2 (Timeout (Suc n))) = ripples s @ [first]
        \<and> timers (step e s2 (Timeout (Suc n))) = timers s @ [(n, duration)]
        \<and> ripples (run e s2 [Timeout n, Timeout (Suc n)]) = ripples s
        \<and> timers (run e s2 [Timeout n, Timeout (Suc n)]) = timers s"
proof -
  define color where "color = r_color (rippleP (resolve (props s)))"
  define duration where "duration = r_duration (rippleP (resolve (props s)))"
  define n where "n = next_handle s"
  define rc1 where "rc1 = \<lparr>rect_left = Fin l, rect_top = Fin t, rect_width = Fin w,
    rect_height = Fin h\<rparr>"
  define first where "first = (n, ripple_cssText color duration (Fin (cx - l - max w h / 2))
    (Fin (cy - t - max w h / 2)) (Fin (max w h)))"
  define second where "second = (Suc n, ripple_cssText color duration (ripple_x rc2 m2)
    (ripple_y rc2 m2) (ripple_size rc2))"
  define s1 where "s1 = step e s (OnClick rc1 (at_point cx cy))"
  define s2 where "s2 = step e s1 (OnClick rc2 m2)"
  have att: "attached s"
    by (simp add: assms(1))
  have "handles_below s"
    unfolding assms(1) by (rule handles_below_run [OF handles_below_mount])
  then have below: "list_all (\<lambda>x. fst x < n) (ripples s)" "list_all (\<lambda>x. fst x < n) (timers s)"
    by (simp_all add: handles_below_def n_def)
  have col: "truthy_text color"
    using assms(2) by (simp add: color_def)
  have s1: "ripples s1 = ripples s @ [first]" "timers s1 = timers s @ [(n, duration)]"
    "next_handle s1 = Suc n" "props s1 = props s" "attached s1"
    using att col
    by (simp_all add: s1_def step_def handleClick_ripples first_def color_def duration_def
        n_def rc1_def ripple_geometry)
  have s2: "ripples s2 = ripples s @ [first, second]"
    "timers s2 = timers s @ [(n, duration), (Suc n, duration)]"
    using col
    by (simp_all add: s2_def step_def handleClick_ripples s1 second_def color_def
        duration_def)
  have f1: "ripples (step e s2 (Timeout n)) = ripples s @ [second]"
    "timers (step e s2 (Timeout n)) = timers s @ [(Suc n, duration)]"
    by (simp_all add: step_def timeout_fires_def s2 filter_fresh [OF below(1)]
        filter_fresh [OF below(2)] first_def second_def)
  have f2: "ripples (step e s2 (Timeout (Suc n))) = ripples s @ [first]"
    "timers (step e s2 (Timeout (Suc n))) = timers s @ [(n, duration)]"
    by (simp_all add: step_def timeout_fires_def s2 filter_fresh [OF below(1)]
        filter_fresh [OF below(2)] first_def second_def)
  have f3: "ripples (run e s2 [Timeout n, Timeout (Suc n)]) = ripples s"
    "timers (run e s2 [Timeout n, Timeout (Suc n)]) = timers s"
    using f1
    by (simp_all add: step_def timeout_fires_def [of "Suc n"] filter_fresh [OF below(1)]
        filter_fresh [OF below(2)] second_def)
  show ?thesis
    unfolding Let_def
    using s1(1,2) s2 f1 f2 f3
    unfolding color_def duration_def n_def first_def second_def s1_def s2_def rc1_def
    by blast
qed

lemma plain_mounted_fields:
  "props plain_mounted = empty_options" "attached plain_mounted"
  "\<not> isHovered plain_mounted" "\<not> isFocused plain_mounted" "\<not> isActive plain_mounted"
  "\<not> isLoading plain_mounted" "ripples plain_mounted = []" "timers plain_mounted = []"
  "next_handle plain_mounted = 0" "keyframes_style plain_mounted = None"
  by (simp_all add: plain_mounted_def mount_def render_keep render_next_handle)

theorem click_spawns_one_ripple_witness:
  "plain_mounted = run plain_env (mount plain_env empty_options True blank_style None) []
   \<and> truthy_text (r_color (rippleP (resolve (props plain_mounted))))
   \<and> ripples (step plain_env
        (step plain_env plain_mounted
           (OnClick \<lparr>rect_left = Fin 0, rect_top = Fin 0, rect_width = Fin 100,
              rect_height = Fin 60\<rparr> (at_point 30 40)))
        (OnClick box100 (at_point 70 80))) =
      [(0, ripple_cssText (Some ''rgba(255, 255, 255, 0.6)'') (Some (Fin 600)) (Fin (- 20)) (Fin (- 10))
             (Fin 100)),
       (1, ripple_cssText (Some ''rgba(255, 255, 255, 0.6)'') (Some (Fin 600)) (Fin 20) (Fin 30)
             (Fin 100))]
   \<and> timers (step plain_env
        (step plain_env plain_mounted
           (OnClick \<lparr>rect_left = Fin 0, rect_top = Fin 0, rect_width = Fin 100,
              rect_height = Fin 60\<rparr> (at_point 30 40)))
        (OnClick box100 (at_point 70 80))) = [(0, Some (Fin 600)), (1, Some (Fin 600))]
   \<and> ripples (step plain_env
        (step plain_env
          (step plain_env plain_mounted
             (OnClick \<lparr>rect_left = Fin 0, rect_top = Fin 0, rect_width = Fin 100,
                rect_height = Fin 60\<rparr> (at_point 30 40)))
          (OnClick box100 (at_point 70 80)))
        (Timeout 0)) =
      [(1, ripple_cssText (Some ''rgba(255, 255, 255, 0.6)'') (Some (Fin 600)) (Fin 20) (Fin 30)
             (Fin 100))]"
proof -
  have h1: "plain_mounted =
      run plain_env (mount plain_env empty_options True blank_style None) []"
    by (simp add: plain_mounted_def)
  have h2: "truthy_text (r_color (rippleP (resolve (props plain_mounted))))"
    by (simp add: plain_mounted_fields resolve_empty)
  have g: "ripple_x box100 (at_point 70 80) = Fin 20" "ripple_y box100 (at_point 70 80) = Fin 30"
    "ripple_size box100 = Fin 100"
    by (simp_all add: box100_def ripple_geometry)
  show ?thesis
    using h1 h2
      click_spawns_one_ripple [OF h1 h2, where cx = 30 and cy = 40 and l = 0 and t = 0
        and w = 100 and h = 60 and ?rc2.0 = box100 and ?m2.0 = "at_point 70 80"]
    by (simp add: Let_def plain_mounted_fields resolve_empty g)
qed

section \<open>Hovering and pressing\<close>

lemma plain_hover_values:
  "hover_transform (resolve empty_options) ''balanced'' =
     [Lit ''scale('', Val (Fin 1.016), Lit '') rotate('', Val (Fin 0),
      Lit ''deg) translateY('', Val (Fin (- 1.6)), Lit ''px) '', Lit ''translateZ(0)'']"
  "hover_filter (resolve empty_options) ''balanced'' =
     [Lit ''brightness('', Val (Fin 1.08), Lit '') saturate('', Val (Fin 1.1),
      Lit '') blur('', Val (Fin 0), Lit ''px)'']"
  by (simp_all add: hover_transform_def hover_filter_def resolve_empty getEffectScale_def
      js_sub_def Let_def)

lemma plain_resolved:
  "gpu (resolve empty_options)" "performance (resolve empty_options) = ''auto''"
  "\<not> prefersReducedMotion (resolve empty_options)"
  by (simp_all add: resolve_empty)

lemma far_pointer:
  "magnetic_distance box100 (at_point 500 50) = Fin 450"
proof -
  have "sqrt 202500 = (450::real)"
    by (rule real_sqrt_unique) simp_all
  then show ?thesis
    by (simp add: magnetic_distance_def magnetic_delta_def box100_def at_point_def js_sub_def)
qed

lemma plain_mounted_listener:
  "magnetic_listener plain_mounted = Some (magneticP (resolve empty_options))"
  by (simp add: plain_mounted_def mount_def render_listeners resolve_empty)

lemma plain_mounted_style:
  "st_transform (style plain_mounted) = [Lit ''translateZ(0)'']"
  "st_filter (style plain_mounted) = [Lit ''none'']"
  by (simp_all add: plain_mounted_def mount_def render_transform render_filter Let_def
      plain_resolved plain_settings)

text \<open>
  C6, as stated, fails: with the default options the magnetic listener is registered,
  and a pointer move far from the element writes the transform \<^verbatim>\<open>translate(0, 0)\<close>
  without changing any interaction state. From that not-hovered state the mouse-enter
  and mouse-leave handlers leave \<^verbatim>\<open>translateZ(0)\<close>, not the transform there was
  before the toggle.
\<close>

theorem hover_toggle_after_pointer_move:
  "\<not> isHovered (step plain_env plain_mounted (DocumentMouseMove box100 (at_point 500 50)))
   \<and> st_transform (style (step plain_env plain_mounted
        (DocumentMouseMove box100 (at_point 500 50)))) = [Lit ''translate(0, 0)'']
   \<and> st_transform (style (run plain_env plain_mounted
        [DocumentMouseMove box100 (at_point 500 50), OnMouseEnter, OnMouseLeave])) =
       [Lit ''translateZ(0)'']"
proof -
  define s where "s = step plain_env plain_mounted (DocumentMouseMove box100 (at_point 500 50))"
  have m: "s = upd_style (\<lambda>st. st\<lparr>st_transform := [Lit ''translate(0, 0)'']\<rparr>) plain_mounted"
    by (simp add: s_def step_def plain_mounted_listener magnetic_handleMouseMove_def
        far_pointer resolve_empty)
  have k: "\<not> isHovered s" "props s = empty_options" "attached s" "\<not> isFocused s"
    "\<not> isActive s" "st_transform (style s) = [Lit ''translate(0, 0)'']"
    by (simp_all add: m plain_mounted_fields)
  define s1 where "s1 = step plain_env s OnMouseEnter"
  have e1: "s1 = render plain_env (s\<lparr>isHovered := True\<rparr>)"
    using k(1) by (simp add: s1_def step_def setIsHovered_def)
  have k1: "isHovered s1" "props s1 = empty_options" "attached s1" "\<not> isFocused s1"
    "\<not> isActive s1"
    by (simp_all add: e1 render_keep k)
  have e2: "step plain_env s1 OnMouseLeave = render plain_env (s1\<lparr>isHovered := False\<rparr>)"
    using k1(1) by (simp add: step_def setIsHovered_def)
  have "st_transform (style (step plain_env s1 OnMouseLeave)) = [Lit ''translateZ(0)'']"
    by (simp add: e2 render_transform Let_def k1 plain_resolved plain_settings)
  then show ?thesis
    using k(1,6) by (simp add: s_def s1_def)
qed

text \<open>
  C6, amended. From a not-hovered state, calling the mouse-enter handler and then the
  mouse-leave handler, with nothing in between, leaves the transform and the filter that
  a render of the not-hovered state writes: with the element bound, motion not reduced,
  and the element neither focused nor pressed, the neutral values (\<^verbatim>\<open>translateZ(0)\<close>
  with GPU acceleration, the empty string without; filter \<^verbatim>\<open>none\<close>), with the hover
  transform and filter in between. These are the values from before the toggle when the
  style before the toggle is the one a render left; a transform that the magnetic or
  tilt listener has written since that render is not restored.
\<close>

theorem hover_round_trip:
  assumes "\<not> isHovered s"
  shows
    "let r = resolve (props s);
         perf = effectivePerformance (performance r) e;
         reduce = shouldReduceMotion (prefersReducedMotion r) e;
         s1 = step e s OnMouseEnter;
         s2 = step e s1 OnMouseLeave;
         s0 = render e s;
         t2 = step e (step e s0 OnMouseEnter) OnMouseLeave
     in isHovered s1 \<and> \<not> isHovered s2
        \<and> st_transform (style s1) =
            (if \<not> attached s then st_transform (style s)
             else if isActive s then active_transform r
             else if isFocused s then [Lit ''scale('', interp_num (f_scale (focusP r)), Lit '')'']
             else if reduce then st_transform (style s)
             else hover_transform r perf)
        \<and> st_filter (style s1) =
            (if \<not> attached s \<or> reduce then st_filter (style s) else hover_filter r perf)
        \<and> st_transform (style s2) =
            (if \<not> attached s then st_transform (style s)
             else if isActive s then active_transform r
             else if isFocused s then [Lit ''scale('', interp_num (f_scale (focusP r)), Lit '')'']
             else if reduce then st_transform (style s)
             else if gpu r then [Lit ''translateZ(0)''] else [])
        \<and> st_filter (style s2) =
            (if \<not> attached s \<or> reduce then st_filter (style s) else [Lit ''none''])
        \<and> st_transform (style s2) = st_transform (style s0)
        \<and> st_filter (style s2) = st_filter (style s0)
        \<and> \<not> isHovered s0
        \<and> st_transform (style t2) = st_transform (style s0)
        \<and> st_filter (style t2) = st_filter (style s0)"
proof -
  define r where "r = resolve (props s)"
  define perf where "perf = effectivePerformance (performance r) e"
  define reduce where "reduce = shouldReduceMotion (prefersReducedMotion r) e"
  have toggle: "isHovered (step e u OnMouseEnter)"
    "\<not> isHovered (step e (step e u OnMouseEnter) OnMouseLeave)"
    "st_transform (style (step e u OnMouseEnter)) =
       (if \<not> attached u then st_transform (style u)
        else if isActive u then active_transform r
        else if isFocused u then [Lit ''scale('', interp_num (f_scale (focusP r)), Lit '')'']
        else if reduce then st_transform (style u)
        else hover_transform r perf)"
    "st_filter (style (step e u OnMouseEnter)) =
       (if \<not> attached u \<or> reduce then st_filter (style u) else hover_filter r perf)"
    "st_transform (style (step e (step e u OnMouseEnter) OnMouseLeave)) =
       (if \<not> attached u then st_transform (style u)
        else if isActive u then active_transform r
        else if isFocused u then [Lit ''scale('', interp_num (f_scale (focusP r)), Lit '')'']
        else if reduce then st_transform (style u)
        else if gpu r then [Lit ''translateZ(0)''] else [])"
    "st_filter (style (step e (step e u OnMouseEnter) OnMouseLeave)) =
       (if \<not> attached u \<or> reduce then st_filter (style u) else [Lit ''none''])"
    if u: "\<not> isHovered u" "props u = props s" for u
  proof -
    define u1 where "u1 = step e u OnMouseEnter"
    have e1: "u1 = render e (u\<lparr>isHovered := True\<rparr>)"
      using u(1) by (simp add: u1_def step_def setIsHovered_def)
    have k1: "isHovered u1" "props u1 = props s" "attached u1 = attached u"
      "isFocused u1 = isFocused u" "isActive u1 = isActive u"
      by (simp_all add: e1 render_keep u)
    have e2: "step e u1 OnMouseLeave = render e (u1\<lparr>isHovered := False\<rparr>)"
      using k1(1) by (simp add: step_def setIsHovered_def)
    have t1: "st_transform (style u1) =
       (if \<not> attached u then st_transform (style u)
        else if isActive u then active_transform r
        else if isFocused u then [Lit ''scale('', interp_num (f_scale (focusP r)), Lit '')'']
        else if reduce then st_transform (style u)
        else hover_transform r perf)"
      "st_filter (style u1) =
       (if \<not> attached u \<or> reduce then st_filter (style u) else hover_filter r perf)"
      by (simp_all add: e1 render_transform render_filter Let_def u r_def perf_def reduce_def)
    have t2: "st_transform (style (step e u1 OnMouseLeave)) =
       (if \<not> attached u then st_transform (style u)
        else if isActive u then active_transform r
        else if isFocused u then [Lit ''scale('', interp_num (f_scale (focusP r)), Lit '')'']
        else if reduce then st_transform (style u)
        else if gpu r then [Lit ''translateZ(0)''] else [])"
      "st_filter (style (step e u1 OnMouseLeave)) =
       (if \<not> attached u \<or> reduce then st_filter (style u) else [Lit ''none''])"
      by (simp_all add: e2 render_transform render_filter Let_def k1 t1 r_def perf_def
          reduce_def)
    show "isHovered (step e u OnMouseEnter)"
      "\<not> isHovered (step e (step e u OnMouseEnter) OnMouseLeave)"
      using k1(1) by (simp_all add: u1_def [symmetric] e2 render_keep)
    show "st_transform (style (step e u OnMouseEnter)) =
       (if \<not> attached u then st_transform (style u)
        else if isActive u then active_transform r
        else if isFocused u then [Lit ''scale('', interp_num (f_scale (focusP r)), Lit '')'']
        else if reduce then st_transform (style u)
        else hover_transform r perf)"
      "st_filter (style (step e u OnMouseEnter)) =
       (if \<not> attached u \<or> reduce then st_filter (style u) else hover_filter r perf)"
      using t1 by (simp_all add: u1_def)
    show "st_transform (style (step e (step e u OnMouseEnter) OnMouseLeave)) =
       (if \<not> attached u then st_transform (style u)
        else if isActive u then active_transform r
        else if isFocused u then [Lit ''scale('', interp_num (f_scale (focusP r)), Lit '')'']
        else if reduce then st_transform (style u)
        else if gpu r then [Lit ''translateZ(0)''] else [])"
      "st_filter (style (step e (step e u OnMouseEnter) OnMouseLeave)) =
       (if \<not> attached u \<or> reduce then st_filter (style u) else [Lit ''none''])"
      using t2 by (simp_all add: u1_def)
  qed
  define s0 where "s0 = render e s"
  have k0: "\<not> isHovered s0" "props s0 = props s" "attached s0 = attached s"
    "isFocused s0 = isFocused s" "isActive s0 = isActive s"
    using assms by (simp_all add: s0_def render_keep)
  have r0: "st_transform (style s0) =
       (if \<not> attached s then st_transform (style s)
        else if isActive s then active_transform r
        else if isFocused s then [Lit ''scale('', interp_num (f_scale (focusP r)), Lit '')'']
        else if reduce then st_transform (style s)
        else if gpu r then [Lit ''translateZ(0)''] else [])"
    "st_filter (style s0) =
       (if \<not> attached s \<or> reduce then st_filter (style s) else [Lit ''none''])"
    using assms
    by (simp_all add: s0_def render_transform render_filter Let_def r_def perf_def reduce_def)
  note a = toggle [OF assms refl]
  note b = toggle(5,6) [OF k0(1,2)]
  have b': "st_transform (style (step e (step e s0 OnMouseEnter) OnMouseLeave)) =
      st_transform (style s0)"
    "st_filter (style (step e (step e s0 OnMouseEnter) OnMouseLeave)) = st_filter (style s0)"
    by (simp_all add: b k0 r0)
  show ?thesis
    unfolding Let_def
    using a b' k0(1) r0
    unfolding r_def perf_def reduce_def s0_def
    by simp
qed

theorem hover_round_trip_witness:
  "\<not> isHovered plain_mounted
   \<and> st_transform (style plain_mounted) = [Lit ''translateZ(0)'']
   \<and> st_filter (style plain_mounted) = [Lit ''none'']
   \<and> st_transform (style (step plain_env plain_mounted OnMouseEnter)) =
       [Lit ''scale('', Val (Fin 1.016), Lit '') rotate('', Val (Fin 0),
        Lit ''deg) translateY('', Val (Fin (- 1.6)), Lit ''px) '', Lit ''translateZ(0)'']
   \<and> st_filter (style (step plain_env plain_mounted OnMouseEnter)) =
       [Lit ''brightness('', Val (Fin 1.08), Lit '') saturate('', Val (Fin 1.1),
        Lit '') blur('', Val (Fin 0), Lit ''px)'']
   \<and> st_transform (style (step plain_env (step plain_env plain_mounted OnMouseEnter)
        OnMouseLeave)) = [Lit ''translateZ(0)'']
   \<and> st_filter (style (step plain_env (step plain_env plain_mounted OnMouseEnter)
        OnMouseLeave)) = [Lit ''none'']"
proof -
  have h: "\<not> isHovered plain_mounted"
    by (simp add: plain_mounted_fields)
  show ?thesis
    using h hover_round_trip [OF h, of plain_env]
    by (simp add: Let_def plain_mounted_fields plain_mounted_style plain_resolved
        plain_settings plain_hover_values)
qed

text \<open>
  C9, as stated, fails: with the default options, pressing writes the press transform
  and releasing replaces it at once, in the render that the release causes, by the
  neutral transform of the hover effect.
\<close>

theorem release_rewrites_transform:
  "st_transform (style (run plain_env plain_mounted [OnMouseDown])) =
     [Lit ''scale('', Val (Fin 0.95), Lit '') rotate('', Val (Fin 0), Lit ''deg)'']
   \<and> st_transform (style (run plain_env plain_mounted [OnMouseDown, OnMouseUp])) =
     [Lit ''translateZ(0)'']"
proof -
  define s1 where "s1 = step plain_env plain_mounted OnMouseDown"
  have e1: "s1 = render plain_env (plain_mounted\<lparr>isActive := True\<rparr>)"
    by (simp add: s1_def step_def setIsActive_def plain_mounted_fields)
  have k1: "isActive s1" "props s1 = empty_options" "attached s1" "\<not> isFocused s1"
    "\<not> isHovered s1"
    by (simp_all add: e1 render_keep plain_mounted_fields)
  have t1: "st_transform (style s1) =
      [Lit ''scale('', Val (Fin 0.95), Lit '') rotate('', Val (Fin 0), Lit ''deg)'']"
    by (simp add: e1 render_transform Let_def plain_mounted_fields active_transform_def
        resolve_empty)
  have e2: "step plain_env s1 OnMouseUp = render plain_env (s1\<lparr>isActive := False\<rparr>)"
    using k1(1) by (simp add: step_def setIsActive_def)
  have t2: "st_transform (style (step plain_env s1 OnMouseUp)) = [Lit ''translateZ(0)'']"
    by (simp add: e2 render_transform Let_def k1 resolve_empty plain_settings)
  show ?thesis
    using t1 t2 by (simp add: s1_def)
qed

text \<open>
  C9, amended. When the active state goes from true to false, the active effect writes
  nothing: it has no branch for the inactive state. The render that the change causes
  runs the hover and focus effects again, and they decide what is left: with the element
  bound, the focus transform and transition if the element is focused; otherwise, unless
  motion is reduced, the hover transform (with the hover transition) or the neutral
  transform of the hover effect. The press transform stays only where neither effect
  writes one (motion reduced or no element, and not focused), and the press transition
  stays also when the element is neither focused nor hovered.
\<close>

theorem release_leaves_hover_and_focus:
  assumes "isActive s"
  shows
    "let r = resolve (props s);
         perf = effectivePerformance (performance r) e;
         reduce = shouldReduceMotion (prefersReducedMotion r) e;
         s' = step e s OnMouseUp
     in activeEffect r e (s\<lparr>isActive := False\<rparr>) = s\<lparr>isActive := False\<rparr>
        \<and> \<not> isActive s'
        \<and> st_transform (style s') =
            (if attached s \<and> isFocused s
               then [Lit ''scale('', interp_num (f_scale (focusP r)), Lit '')'']
             else if attached s \<and> \<not> reduce
               then (if isHovered s then hover_transform r perf
                     else if gpu r then [Lit ''translateZ(0)''] else [])
             else st_transform (style s))
        \<and> st_transition (style s') =
            (if attached s \<and> isFocused s
               then [Lit ''all '', interp_num (f_duration (focusP r)), Lit ''ms ease-out'']
             else if attached s \<and> \<not> reduce \<and> isHovered s
               then [Lit ''all '', Val (adjustedDuration r perf reduce), Lit ''ms '',
                     interp_str (h_easing (hoverP r))]
             else st_transition (style s))"
proof -
  have e: "step e s OnMouseUp = render e (s\<lparr>isActive := False\<rparr>)"
    using assms by (simp add: step_def setIsActive_def)
  have a: "activeEffect (resolve (props s)) e (s\<lparr>isActive := False\<rparr>) = s\<lparr>isActive := False\<rparr>"
    by (simp add: activeEffect_def)
  have b: "\<not> isActive (step e s OnMouseUp)"
    by (simp add: e render_keep)
  show ?thesis
    unfolding Let_def
    by (intro conjI a b) (simp_all add: e render_transform render_transition Let_def)
qed

theorem release_leaves_hover_and_focus_witness:
  "isActive (step plain_env
      (mount plain_env (empty_options\<lparr>o_prefersReducedMotion := Some True\<rparr>) True
         blank_style None) OnMouseDown)
   \<and> st_transform (style (run plain_env
        (mount plain_env (empty_options\<lparr>o_prefersReducedMotion := Some True\<rparr>) True
           blank_style None) [OnMouseDown, OnMouseUp])) =
       [Lit ''scale('', Val (Fin 0.95), Lit '') rotate('', Val (Fin 0), Lit ''deg)'']
   \<and> st_transition (style (run plain_env
        (mount plain_env (empty_options\<lparr>o_prefersReducedMotion := Some True\<rparr>) True
           blank_style None) [OnMouseDown, OnMouseUp])) =
       [Lit ''all '', Val (Fin 100), Lit ''ms ease-out'']"
proof -
  define opts where "opts = empty_options\<lparr>o_prefersReducedMotion := Some True\<rparr>"
  define s0 where "s0 = mount plain_env opts True blank_style None"
  define s1 where "s1 = step plain_env s0 OnMouseDown"
  have r: "resolve opts = (resolve empty_options)\<lparr>prefersReducedMotion := True\<rparr>"
    by (simp add: opts_def resolve_def empty_options_def)
  have k0: "props s0 = opts" "attached s0" "\<not> isActive s0" "\<not> isFocused s0"
    by (simp_all add: s0_def mount_def render_keep)
  have e1: "s1 = render plain_env (s0\<lparr>isActive := True\<rparr>)"
    using k0 by (simp add: s1_def step_def setIsActive_def)
  have k1: "isActive s1" "props s1 = opts" "attached s1" "\<not> isFocused s1"
    by (simp_all add: e1 render_keep k0)
  have t1: "st_transform (style s1) =
      [Lit ''scale('', Val (Fin 0.95), Lit '') rotate('', Val (Fin 0), Lit ''deg)'']"
    "st_transition (style s1) = [Lit ''all '', Val (Fin 100), Lit ''ms ease-out'']"
    by (simp_all add: e1 render_transform render_transition Let_def k0 r resolve_empty
        active_transform_def active_transition_def)
  show ?thesis
    using k1(1) release_leaves_hover_and_focus [OF k1(1), of plain_env]
    by (simp add: Let_def k1 t1 r shouldReduceMotion_def
        s1_def [symmetric] s0_def [symmetric] opts_def [symmetric])
qed

end
